theory Spec2Isabelle
  imports Main
begin

section \<open>Python strings\<close>

text \<open>
  A Python \<open>str\<close> is modelled as a \<open>string\<close>; a \<open>char\<close> stands for the code point of
  the same number, so the model covers texts over the code points 0 to 255. The character
  classes below are Python's Unicode classes restricted to that range.
\<close>

definition dquote :: char where
  "dquote = CHR 0x22"

definition bslash :: char where
  "bslash = CHR 0x5C"

definition newline :: char where
  "newline = CHR 0x0A"

text \<open>\<open>str.isspace\<close> on one character; also the class \<open>\s\<close> of \<open>re\<close>.\<close>

definition is_space :: "char \<Rightarrow> bool" where
  "is_space c = (let n = (of_char c :: nat) in
     (9 \<le> n \<and> n \<le> 13) \<or> (28 \<le> n \<and> n \<le> 32) \<or> n = 133 \<or> n = 160)"

text \<open>The class \<open>\d\<close> of \<open>re\<close> (decimal digits).\<close>

definition is_decimal :: "char \<Rightarrow> bool" where
  "is_decimal c = (let n = (of_char c :: nat) in 48 \<le> n \<and> n \<le> 57)"

text \<open>\<open>str.isdigit\<close> on one character: the decimal digits and the superscripts 1, 2, 3.\<close>

definition is_digit_char :: "char \<Rightarrow> bool" where
  "is_digit_char c = (let n = (of_char c :: nat) in
     (48 \<le> n \<and> n \<le> 57) \<or> n = 178 \<or> n = 179 \<or> n = 185)"

text \<open>The class \<open>\w\<close> of \<open>re\<close>: alphanumeric characters and the underscore.\<close>

definition is_word :: "char \<Rightarrow> bool" where
  "is_word c = (let n = (of_char c :: nat) in
     (48 \<le> n \<and> n \<le> 57) \<or> (65 \<le> n \<and> n \<le> 90) \<or> n = 95 \<or> (97 \<le> n \<and> n \<le> 122) \<or>
     n = 170 \<or> n = 178 \<or> n = 179 \<or> n = 181 \<or> n = 185 \<or> n = 186 \<or>
     (188 \<le> n \<and> n \<le> 190) \<or> (192 \<le> n \<and> n \<le> 214) \<or> (216 \<le> n \<and> n \<le> 246) \<or>
     248 \<le> n)"

text \<open>ASCII lower-casing, for \<open>re.IGNORECASE\<close> against ASCII pattern letters.\<close>

definition ascii_lower :: "char \<Rightarrow> char" where
  "ascii_lower c = (let n = (of_char c :: nat) in
     if 65 \<le> n \<and> n \<le> 90 then char_of (n + 32) else c)"

text \<open>\<open>s.startswith(p)\<close>, \<open>s.endswith(p)\<close> and \<open>p in s\<close>.\<close>

fun startswith :: "string \<Rightarrow> string \<Rightarrow> bool" where
  "startswith s [] = True"
| "startswith [] (p # ps) = False"
| "startswith (c # cs) (p # ps) = (c = p \<and> startswith cs ps)"

definition endswith :: "string \<Rightarrow> string \<Rightarrow> bool" where
  "endswith s p = startswith (rev s) (rev p)"

fun contains :: "string \<Rightarrow> string \<Rightarrow> bool" where
  "contains [] p = (p = [])"
| "contains (c # cs) p = (startswith (c # cs) p \<or> contains cs p)"

text \<open>
  \<open>s.replace(old, new)\<close> for a non-empty \<open>old\<close>: the occurrences are found from the left
  and do not overlap. The counter \<open>k\<close> is the number of characters still to be skipped
  after an occurrence. (An empty \<open>old\<close> never reaches \<open>replace\<close> in this program.)
\<close>

fun replace_from :: "nat \<Rightarrow> string \<Rightarrow> string \<Rightarrow> string \<Rightarrow> string" where
  "replace_from k old new [] = []"
| "replace_from (Suc k) old new (c # cs) = replace_from k old new cs"
| "replace_from 0 old new (c # cs) =
     (if startswith (c # cs) old then new @ replace_from (length old - 1) old new cs
      else c # replace_from 0 old new cs)"

definition replace :: "string \<Rightarrow> string \<Rightarrow> string \<Rightarrow> string" where
  "replace s old new = (if old = [] then s else replace_from 0 old new s)"

text \<open>\<open>s.strip()\<close>.\<close>

definition lstrip :: "string \<Rightarrow> string" where
  "lstrip s = dropWhile is_space s"

definition strip :: "string \<Rightarrow> string" where
  "strip s = rev (dropWhile is_space (rev (dropWhile is_space s)))"

text \<open>\<open>s.split(sep)\<close> for a separator of one character: never an empty list.\<close>

fun split_on :: "char \<Rightarrow> string \<Rightarrow> string list" where
  "split_on sep [] = [[]]"
| "split_on sep (c # cs) =
     (if c = sep then [] # split_on sep cs
      else (case split_on sep cs of
              [] \<Rightarrow> [[c]]
            | w # ws \<Rightarrow> (c # w) # ws))"

text \<open>\<open>s.split()\<close>: the maximal runs of characters that are not white space.\<close>

fun split_ws :: "string \<Rightarrow> string \<Rightarrow> string list" where
  "split_ws acc [] = (if acc = [] then [] else [rev acc])"
| "split_ws acc (c # cs) =
     (if is_space c then (if acc = [] then split_ws [] cs else rev acc # split_ws [] cs)
      else split_ws (c # acc) cs)"

text \<open>\<open>sep.join(xs)\<close>.\<close>

fun join :: "string \<Rightarrow> string list \<Rightarrow> string" where
  "join sep [] = []"
| "join sep [x] = x"
| "join sep (x # y # ys) = x @ sep @ join sep (y # ys)"

text \<open>\<open>s.isdigit()\<close>: not empty, and digits only.\<close>

definition isdigit :: "string \<Rightarrow> bool" where
  "isdigit s = (s \<noteq> [] \<and> list_all is_digit_char s)"

text \<open>\<open>s.find(c, start)\<close> for one character: the index, or \<open>None\<close> for Python's -1.\<close>

fun find_from :: "char \<Rightarrow> nat \<Rightarrow> nat \<Rightarrow> string \<Rightarrow> nat option" where
  "find_from x start i [] = None"
| "find_from x start i (c # cs) =
     (if start \<le> i \<and> c = x then Some i else find_from x start (Suc i) cs)"

section \<open>Regular expressions\<close>

text \<open>
  The patterns of the program are written as values of \<open>re\<close>, and matched the way
  Python's \<open>re\<close> module matches them: by backtracking, the leftmost start first, and at
  one start the alternatives in the order of the pattern (a greedy repetition tries one
  more iteration before it tries to stop, a lazy one the other way round).
\<close>

datatype cc =
    CLit char
  | CLitI char
  | CWord
  | CSpace
  | CDigit
  | CDot
  | CSet "char list"
  | CNotSet "char list"

fun cc_match :: "cc \<Rightarrow> char \<Rightarrow> bool" where
  "cc_match (CLit x) c = (c = x)"
| "cc_match (CLitI x) c = (ascii_lower c = ascii_lower x)"
| "cc_match CWord c = is_word c"
| "cc_match CSpace c = is_space c"
| "cc_match CDigit c = is_decimal c"
| "cc_match CDot c = (c \<noteq> newline)"
| "cc_match (CSet xs) c = (c \<in> set xs)"
| "cc_match (CNotSet xs) c = (c \<notin> set xs)"

datatype re =
    Ch cc
  | Eps
  | Cat re re
  | Alt re re
  | Star re
  | StarLazy re
  | Grp nat re
  | WordB

text \<open>
  A matcher state: the character before the current position (for \<open>\b\<close>), the offset
  from the start of the attempt, the text still to be read, and the groups captured so
  far (\<open>None\<close> for a group that has not taken part).
\<close>

datatype mstate = MState "char option" nat string "string option list"

fun ms_pos :: "mstate \<Rightarrow> nat" where
  "ms_pos (MState p n r g) = n"

fun ms_rest :: "mstate \<Rightarrow> string" where
  "ms_rest (MState p n r g) = r"

fun ms_groups :: "mstate \<Rightarrow> string option list" where
  "ms_groups (MState p n r g) = g"

fun step_char :: "cc \<Rightarrow> (mstate \<Rightarrow> mstate option) \<Rightarrow> mstate \<Rightarrow> mstate option" where
  "step_char c k (MState p n [] g) = None"
| "step_char c k (MState p n (x # xs) g) =
     (if cc_match c x then k (MState (Some x) (Suc n) xs g) else None)"

fun at_boundary :: "mstate \<Rightarrow> bool" where
  "at_boundary (MState p n r g) =
     ((case p of None \<Rightarrow> False | Some c \<Rightarrow> is_word c) \<noteq>
      (case r of [] \<Rightarrow> False | c # cs \<Rightarrow> is_word c))"

fun set_group :: "nat \<Rightarrow> mstate \<Rightarrow> mstate \<Rightarrow> mstate" where
  "set_group i (MState p n r g) (MState p' n' r' g') =
     MState p' n' r' (g'[i := Some (take (n' - n) r)])"

text \<open>
  Repetition. One more iteration is accepted only if it has read something, so at most
  \<open>length\<close> of the remaining text many iterations can follow one another; the first
  argument counts them down. (No repeated sub-pattern of the program matches the empty
  text or holds a group.)
\<close>

fun star_greedy ::
  "nat \<Rightarrow> ((mstate \<Rightarrow> mstate option) \<Rightarrow> mstate \<Rightarrow> mstate option) \<Rightarrow>
   (mstate \<Rightarrow> mstate option) \<Rightarrow> mstate \<Rightarrow> mstate option" where
  "star_greedy 0 f k st = k st"
| "star_greedy (Suc n) f k st =
     (case f (\<lambda>st'. if ms_pos st < ms_pos st' then star_greedy n f k st' else None) st of
        Some r \<Rightarrow> Some r
      | None \<Rightarrow> k st)"

fun star_lazy ::
  "nat \<Rightarrow> ((mstate \<Rightarrow> mstate option) \<Rightarrow> mstate \<Rightarrow> mstate option) \<Rightarrow>
   (mstate \<Rightarrow> mstate option) \<Rightarrow> mstate \<Rightarrow> mstate option" where
  "star_lazy 0 f k st = k st"
| "star_lazy (Suc n) f k st =
     (case k st of
        Some r \<Rightarrow> Some r
      | None \<Rightarrow> f (\<lambda>st'. if ms_pos st < ms_pos st' then star_lazy n f k st' else None) st)"

primrec rmatch :: "re \<Rightarrow> (mstate \<Rightarrow> mstate option) \<Rightarrow> mstate \<Rightarrow> mstate option" where
  "rmatch (Ch c) = (\<lambda>k st. step_char c k st)"
| "rmatch Eps = (\<lambda>k st. k st)"
| "rmatch (Cat a b) = (\<lambda>k st. rmatch a (rmatch b k) st)"
| "rmatch (Alt a b) = (\<lambda>k st. case rmatch a k st of Some r \<Rightarrow> Some r | None \<Rightarrow> rmatch b k st)"
| "rmatch (Star a) = (\<lambda>k st. star_greedy (length (ms_rest st)) (rmatch a) k st)"
| "rmatch (StarLazy a) = (\<lambda>k st. star_lazy (length (ms_rest st)) (rmatch a) k st)"
| "rmatch (Grp i a) = (\<lambda>k st. rmatch a (\<lambda>st'. k (set_group i st st')) st)"
| "rmatch WordB = (\<lambda>k st. if at_boundary st then k st else None)"

text \<open>
  One attempt at one position: the number of characters matched and the groups, where
  group 0 is the whole match (\<open>m.group(0)\<close>). The second argument is the number of
  groups of the pattern.
\<close>

definition match_at :: "re \<Rightarrow> nat \<Rightarrow> char option \<Rightarrow> string \<Rightarrow> (nat \<times> string option list) option" where
  "match_at r ng prev s =
     (case rmatch r Some (MState prev 0 s (replicate (Suc ng) None)) of
        None \<Rightarrow> None
      | Some st \<Rightarrow> Some (ms_pos st, (ms_groups st)[0 := Some (take (ms_pos st) s)]))"

text \<open>\<open>re.match(pattern, s)\<close>: an attempt at the start of the text only.\<close>

definition re_match :: "re \<Rightarrow> nat \<Rightarrow> string \<Rightarrow> string option list option" where
  "re_match r ng s = map_option snd (match_at r ng None s)"

text \<open>
  \<open>re.search(pattern, s)\<close>: the leftmost match, as its start index and its groups. (No
  pattern of the program matches the empty text, so nothing matches at the end.)
\<close>

fun search_from :: "re \<Rightarrow> nat \<Rightarrow> char option \<Rightarrow> nat \<Rightarrow> string \<Rightarrow> (nat \<times> string option list) option" where
  "search_from r ng prev i [] = None"
| "search_from r ng prev i (c # cs) =
     (case match_at r ng prev (c # cs) of
        Some (n, g) \<Rightarrow> Some (i, g)
      | None \<Rightarrow> search_from r ng (Some c) (Suc i) cs)"

definition re_search :: "re \<Rightarrow> nat \<Rightarrow> string \<Rightarrow> (nat \<times> string option list) option" where
  "re_search r ng s = search_from r ng None 0 s"

text \<open>
  The successive matches of \<open>re.finditer\<close>, with the text between them: a match starts
  at the leftmost position at or after the end of the one before. The counter is the
  number of characters of the current match still to be passed over.
\<close>

datatype tok = TChar char | TMatch "string option list"

fun scan :: "re \<Rightarrow> nat \<Rightarrow> nat \<Rightarrow> char option \<Rightarrow> string \<Rightarrow> tok list" where
  "scan r ng k prev [] = []"
| "scan r ng (Suc k) prev (c # cs) = scan r ng k (Some c) cs"
| "scan r ng 0 prev (c # cs) =
     (case match_at r ng prev (c # cs) of
        None \<Rightarrow> TChar c # scan r ng 0 (Some c) cs
      | Some (n, g) \<Rightarrow>
          (if n = 0 then TMatch g # TChar c # scan r ng 0 (Some c) cs
           else TMatch g # scan r ng (n - 1) (Some c) cs))"

fun group_text :: "string option list \<Rightarrow> nat \<Rightarrow> string" where
  "group_text g i = (if i < length g then (case g ! i of None \<Rightarrow> [] | Some s \<Rightarrow> s) else [])"

text \<open>\<open>re.finditer\<close>: the groups of every match, group 0 first.\<close>

fun matches_of :: "tok list \<Rightarrow> string option list list" where
  "matches_of [] = []"
| "matches_of (TChar c # ts) = matches_of ts"
| "matches_of (TMatch g # ts) = g # matches_of ts"

definition re_finditer :: "re \<Rightarrow> nat \<Rightarrow> string \<Rightarrow> string option list list" where
  "re_finditer r ng s = matches_of (scan r ng 0 None s)"

text \<open>
  \<open>re.findall\<close> for a pattern with groups: per match the texts of the groups 1 to
  \<open>ng\<close>, the empty text for a group that did not take part.
\<close>

definition re_findall :: "re \<Rightarrow> nat \<Rightarrow> string \<Rightarrow> string list list" where
  "re_findall r ng s = map (\<lambda>g. map (group_text g) [1 ..< Suc ng]) (re_finditer r ng s)"

text \<open>\<open>re.findall\<close> for a pattern with one group: the text of the group, per match.\<close>

definition re_findall1 :: "re \<Rightarrow> string \<Rightarrow> string list" where
  "re_findall1 r s = map (\<lambda>g. group_text g 1) (re_finditer r 1 s)"

text \<open>
  \<open>re.split\<close> for a pattern whose only group is the whole pattern: the texts between
  the matches, with the matched texts between them.
\<close>

fun split_toks :: "string \<Rightarrow> tok list \<Rightarrow> string list" where
  "split_toks acc [] = [rev acc]"
| "split_toks acc (TChar c # ts) = split_toks (c # acc) ts"
| "split_toks acc (TMatch g # ts) = rev acc # group_text g 1 # split_toks [] ts"

definition re_split :: "re \<Rightarrow> string \<Rightarrow> string list" where
  "re_split r s = split_toks [] (scan r 1 0 None s)"

subsection \<open>Replacement templates\<close>

text \<open>
  \<open>re.sub\<close> reads its replacement text as a template before it replaces anything: a
  backslash starts an escape or a group reference, and a template it cannot read raises
  (\<open>re.error\<close>, or \<open>IndexError\<close> for an unknown group name). The one exception of the
  model stands for both. A group name \<open>\g<...>\<close> is accepted when it is a number written
  in ASCII digits; the signed, padded and underscored numbers that older versions of
  Python accept with a warning are refused here.
\<close>

datatype py_error = TemplateError

datatype titem = TLit char | TGroup nat

definition is_octal :: "char \<Rightarrow> bool" where
  "is_octal c = (let n = (of_char c :: nat) in 48 \<le> n \<and> n \<le> 55)"

definition is_ascii_letter :: "char \<Rightarrow> bool" where
  "is_ascii_letter c = (let n = (of_char c :: nat) in (65 \<le> n \<and> n \<le> 90) \<or> (97 \<le> n \<and> n \<le> 122))"

definition digit_val :: "char \<Rightarrow> nat" where
  "digit_val c = of_char c - 48"

definition decimal_val :: "string \<Rightarrow> nat" where
  "decimal_val s = foldl (\<lambda>a c. 10 * a + digit_val c) 0 s"

definition escape_char :: "char \<Rightarrow> char option" where
  "escape_char c =
     (if c = CHR ''a'' then Some (CHR 0x07)
      else if c = CHR ''b'' then Some (CHR 0x08)
      else if c = CHR ''f'' then Some (CHR 0x0C)
      else if c = CHR ''n'' then Some (CHR 0x0A)
      else if c = CHR ''r'' then Some (CHR 0x0D)
      else if c = CHR ''t'' then Some (CHR 0x09)
      else if c = CHR ''v'' then Some (CHR 0x0B)
      else if c = bslash then Some bslash
      else None)"

definition add_item :: "titem \<Rightarrow> py_error + titem list \<Rightarrow> py_error + titem list" where
  "add_item x r = (case r of Inl e \<Rightarrow> Inl e | Inr xs \<Rightarrow> Inr (x # xs))"

definition add_group :: "nat \<Rightarrow> nat \<Rightarrow> py_error + titem list \<Rightarrow> py_error + titem list" where
  "add_group ng i r = (if ng < i then Inl TemplateError else add_item (TGroup i) r)"

text \<open>
  The template reader. After a backslash: \<open>g<n>\<close> is a group reference; \<open>0\<close> starts
  an octal escape of up to three digits; another digit starts a group reference of one
  or two digits, or an octal escape when three octal digits follow one another; one of
  \<open>a b f n r t v\<close> and the backslash stand for a control character or the backslash; any
  other ASCII letter is an error; anything else stays as written, with its backslash.
\<close>

fun parse_template :: "nat \<Rightarrow> string \<Rightarrow> py_error + titem list" where
  "parse_template ng [] = Inr []"
| "parse_template ng (c # cs) =
     (if c \<noteq> bslash then add_item (TLit c) (parse_template ng cs)
      else (case cs of
        [] \<Rightarrow> Inl TemplateError
      | d # ds \<Rightarrow>
          (if d = CHR ''g'' then
             (case ds of
                [] \<Rightarrow> Inl TemplateError
              | l # es \<Rightarrow>
                  (if l \<noteq> CHR ''<'' then Inl TemplateError
                   else if CHR ''>'' \<notin> set es then Inl TemplateError
                   else (let name = takeWhile (\<lambda>x. x \<noteq> CHR ''>'') es in
                     if name = [] \<or> \<not> list_all is_decimal name then Inl TemplateError
                     else add_group ng (decimal_val name)
                            (parse_template ng (drop (Suc (length name)) es)))))
           else if d = CHR ''0'' then
             (case ds of
                [] \<Rightarrow> add_item (TLit (CHR 0x00)) (parse_template ng ds)
              | e # es \<Rightarrow>
                  (if is_octal e then
                     (case es of
                        [] \<Rightarrow> add_item (TLit (char_of (digit_val e))) (parse_template ng es)
                      | f # fs \<Rightarrow>
                          (if is_octal f
                           then add_item (TLit (char_of (8 * digit_val e + digit_val f)))
                                  (parse_template ng fs)
                           else add_item (TLit (char_of (digit_val e))) (parse_template ng es)))
                   else add_item (TLit (CHR 0x00)) (parse_template ng ds)))
           else if is_decimal d then
             (case ds of
                [] \<Rightarrow> add_group ng (digit_val d) (parse_template ng ds)
              | e # es \<Rightarrow>
                  (if is_decimal e then
                     (case es of
                        [] \<Rightarrow> add_group ng (10 * digit_val d + digit_val e) (parse_template ng es)
                      | f # fs \<Rightarrow>
                          (if is_octal d \<and> is_octal e \<and> is_octal f then
                             (if 255 < 64 * digit_val d + 8 * digit_val e + digit_val f
                              then Inl TemplateError
                              else add_item
                                     (TLit (char_of (64 * digit_val d + 8 * digit_val e + digit_val f)))
                                     (parse_template ng fs))
                           else add_group ng (10 * digit_val d + digit_val e)
                                  (parse_template ng es)))
                   else add_group ng (digit_val d) (parse_template ng ds)))
           else (case escape_char d of
                   Some x \<Rightarrow> add_item (TLit x) (parse_template ng ds)
                 | None \<Rightarrow>
                     (if is_ascii_letter d then Inl TemplateError
                      else add_item (TLit bslash) (add_item (TLit d) (parse_template ng ds)))))))"

fun expand_item :: "string option list \<Rightarrow> titem \<Rightarrow> string" where
  "expand_item g (TLit c) = [c]"
| "expand_item g (TGroup i) = group_text g i"

definition expand :: "titem list \<Rightarrow> string option list \<Rightarrow> string" where
  "expand items g = concat (map (expand_item g) items)"

text \<open>
  \<open>re.sub(pattern, repl, s, count)\<close>: the first \<open>count\<close> matches are replaced (all of
  them for \<open>None\<close>, Python's 0), the others stay.
\<close>

fun sub_toks :: "titem list \<Rightarrow> nat option \<Rightarrow> tok list \<Rightarrow> string" where
  "sub_toks items cnt [] = []"
| "sub_toks items cnt (TChar c # ts) = c # sub_toks items cnt ts"
| "sub_toks items cnt (TMatch g # ts) =
     (case cnt of
        None \<Rightarrow> expand items g @ sub_toks items None ts
      | Some 0 \<Rightarrow> group_text g 0 @ sub_toks items (Some 0) ts
      | Some (Suc n) \<Rightarrow> expand items g @ sub_toks items (Some n) ts)"

definition re_sub :: "re \<Rightarrow> nat \<Rightarrow> string \<Rightarrow> nat option \<Rightarrow> string \<Rightarrow> py_error + string" where
  "re_sub r ng repl cnt s =
     (case parse_template ng repl of
        Inl e \<Rightarrow> Inl e
      | Inr items \<Rightarrow> Inr (sub_toks items cnt (scan r ng 0 None s)))"

subsection \<open>Writing patterns\<close>

definition seq :: "re list \<Rightarrow> re" where
  "seq rs = foldr Cat rs Eps"

definition lit :: "string \<Rightarrow> re" where
  "lit s = seq (map (\<lambda>c. Ch (CLit c)) s)"

definition lit_nocase :: "string \<Rightarrow> re" where
  "lit_nocase s = seq (map (\<lambda>c. Ch (CLitI c)) s)"

definition plus :: "re \<Rightarrow> re" where
  "plus r = Cat r (Star r)"

definition opt :: "re \<Rightarrow> re" where
  "opt r = Alt r Eps"

definition ws :: re where
  "ws = Star (Ch CSpace)"

definition ws1 :: re where
  "ws1 = plus (Ch CSpace)"

definition word :: re where
  "word = plus (Ch CWord)"

section \<open>The translator\<close>

text \<open>
  The attributes of \<open>CToCppTranslator\<close> are passed and returned explicitly. A Python
  \<open>set\<close> is a list without repetitions, in the order of insertion; Python leaves the
  order in which a set of strings is iterated open, and the theorems on header lines
  below are stated for every order. A \<open>dict\<close> is an association list in the order of
  first insertion, which is the order Python iterates it in.
\<close>

definition set_add :: "'a list \<Rightarrow> 'a \<Rightarrow> 'a list" where
  "set_add xs x = (if x \<in> set xs then xs else xs @ [x])"

definition to_set :: "'a list \<Rightarrow> 'a list" where
  "to_set xs = foldl set_add [] xs"

fun dict_set :: "('k \<times> 'v) list \<Rightarrow> 'k \<Rightarrow> 'v \<Rightarrow> ('k \<times> 'v) list" where
  "dict_set [] k v = [(k, v)]"
| "dict_set ((k', v') # d) k v =
     (if k' = k then (k, v) # d else (k', v') # dict_set d k v)"

definition indent_str :: string where
  "indent_str = ''    ''"

subsection \<open>Includes\<close>

text \<open>\<^verbatim>\<open>#include\s+<([^>]+)>\<close>\<close>

definition include_pattern :: re where
  "include_pattern =
     seq [lit ''#include'', ws1, lit ''<'', Grp 1 (plus (Ch (CNotSet ''>''))), lit ''>'']"

text \<open>\<^verbatim>\<open>%\.[0-9]+[fg]\<close>\<close>

definition iomanip_pattern :: re where
  "iomanip_pattern = seq [lit ''%.'', plus (Ch (CSet ''0123456789'')), Ch (CSet ''fg'')]"

definition identify_includes :: "string \<Rightarrow> string list" where
  "identify_includes c_code = to_set (re_findall1 include_pattern c_code)"

definition identify_needs_iomanip :: "string \<Rightarrow> bool" where
  "identify_needs_iomanip c_code = (re_search iomanip_pattern 0 c_code \<noteq> None)"

definition c_to_cpp_headers :: "(string \<times> string) list" where
  "c_to_cpp_headers =
     [(''stdio.h'', ''iostream''),
      (''stdlib.h'', ''cstdlib''),
      (''string.h'', ''string''),
      (''math.h'', ''cmath''),
      (''time.h'', ''ctime''),
      (''assert.h'', ''cassert''),
      (''ctype.h'', ''cctype''),
      (''float.h'', ''cfloat''),
      (''limits.h'', ''climits''),
      (''locale.h'', ''clocale''),
      (''signal.h'', ''csignal''),
      (''stdarg.h'', ''cstdarg''),
      (''stdbool.h'', ''cstdbool''),
      (''stddef.h'', ''cstddef''),
      (''stdint.h'', ''cstdint'')]"

definition include_line :: "string \<Rightarrow> string" where
  "include_line h = ''#include <'' @ h @ ''>''"

text \<open>
  The name under which a header is emitted: the entry of the table, or the header's own
  name when the table has none.
\<close>

definition mapped_header :: "string \<Rightarrow> string" where
  "mapped_header inc = (case map_of c_to_cpp_headers inc of Some h \<Rightarrow> h | None \<Rightarrow> inc)"

text \<open>The loop of \<open>_translate_includes\<close> over the set of header names.\<close>

fun include_lines :: "string list \<Rightarrow> string list" where
  "include_lines [] = []"
| "include_lines (inc # incs) =
     (if inc = ''functional'' then include_lines incs
      else include_line (mapped_header inc) # include_lines incs)"

definition translate_includes :: "bool \<Rightarrow> string list \<Rightarrow> string list" where
  "translate_includes needs_iomanip includes =
     [''// C++ style includes''] @
     (if needs_iomanip then [''#include <iomanip>''] else []) @
     (if ''functional'' \<in> set includes then [''#include <functional>''] else []) @
     [''#include <algorithm>''] @
     include_lines includes"

subsection \<open>Defines\<close>

text \<open>\<^verbatim>\<open>#define\s+(\w+)\s+(.+)\<close>\<close>

definition define_pattern :: re where
  "define_pattern = seq [lit ''#define'', ws1, Grp 1 word, ws1, Grp 2 (plus (Ch CDot))]"

fun add_define :: "(string \<times> string) list \<Rightarrow> string list \<Rightarrow> (string \<times> string) list" where
  "add_define d [name, val] = dict_set d name (strip val)"
| "add_define d g = d"

definition identify_defines :: "string \<Rightarrow> (string \<times> string) list" where
  "identify_defines c_code = foldl add_define [] (re_findall define_pattern 2 c_code)"

fun define_lines :: "(string \<times> string) list \<Rightarrow> string list" where
  "define_lines [] = []"
| "define_lines ((name, val) # ds) =
     (if startswith val [dquote] \<and> endswith val [dquote]
        then (''const string '' @ name @ '' = '' @ val @ '';'') # define_lines ds
      else if CHR ''.'' \<in> set val
        then (''const double '' @ name @ '' = '' @ val @ '';'') # define_lines ds
      else if isdigit val
        then (''const int '' @ name @ '' = '' @ val @ '';'') # define_lines ds
      else (''const auto '' @ name @ '' = '' @ val @ '';'') # define_lines ds)"

definition translate_defines :: "(string \<times> string) list \<Rightarrow> string list" where
  "translate_defines defines =
     (if defines \<noteq> [] then ''// Constants (converted from #define)'' # define_lines defines
      else [])"

subsection \<open>Global variables\<close>

text \<open>\<^verbatim>\<open>int\s+main\s*\(\<close>\<close>

definition main_count_pattern :: re where
  "main_count_pattern = seq [lit ''int'', ws1, lit ''main'', ws, lit ''('']"

text \<open>\<^verbatim>\<open>(\w+)\s+(\w+)\s*\([^)]*\)\s*{\<close>\<close>

definition other_funcs_pattern :: re where
  "other_funcs_pattern =
     seq [Grp 1 word, ws1, Grp 2 word, ws, lit ''('', Star (Ch (CNotSet '')'')), lit '')'',
          ws, lit ''{'']"

text \<open>The patterns of simple programs, searched with \<open>re.IGNORECASE\<close>.\<close>

definition simple_patterns :: "re list" where
  "simple_patterns =
     [lit_nocase ''isPrime'',
      seq [lit_nocase ''printf'', Star (Ch CDot), lit_nocase ''scanf''],
      lit_nocase ''compoundInterest'',
      lit_nocase ''fibonacci'',
      lit_nocase ''factorial'',
      Alt (lit_nocase ''triangle'') (Alt (lit_nocase ''square'') (lit_nocase ''circle'')),
      Alt (lit_nocase ''celsius'') (lit_nocase ''fahrenheit''),
      lit_nocase ''ASCII'']"

fun func_name_of :: "string list \<Rightarrow> string" where
  "func_name_of [t, n] = n"
| "func_name_of g = []"

definition is_simple_program :: "string \<Rightarrow> bool" where
  "is_simple_program c_code =
     (if length (re_finditer main_count_pattern 0 c_code) \<noteq> 1 then False
      else if 0 < length (filter (\<lambda>func. func_name_of func \<noteq> ''main'')
                            (re_findall other_funcs_pattern 2 c_code)) then False
      else list_ex (\<lambda>pattern. re_search pattern 0 c_code \<noteq> None) simple_patterns)"

text \<open>\<^verbatim>\<open>(\w+\s+\w+\s*\([^)]*\)\s*{[^{}]*(?:{[^{}]*}[^{}]*)*})\<close>\<close>

definition function_block_pattern :: re where
  "function_block_pattern =
     Grp 1 (seq [word, ws1, word, ws, lit ''('', Star (Ch (CNotSet '')'')), lit '')'', ws,
                 lit ''{'', Star (Ch (CNotSet ''{}'')),
                 Star (seq [lit ''{'', Star (Ch (CNotSet ''{}'')), lit ''}'',
                            Star (Ch (CNotSet ''{}''))]),
                 lit ''}''])"

text \<open>\<^verbatim>\<open>(const\s+)?(\w+)\s+(\w+)\s*=\s*[^;]+;\<close>\<close>

definition var_pattern :: re where
  "var_pattern =
     seq [opt (Grp 1 (seq [lit ''const'', ws1])), Grp 2 word, ws1, Grp 3 word, ws, lit ''='',
          ws, plus (Ch (CNotSet '';'')), lit '';'']"

definition identify_global_variables :: "string \<Rightarrow> string list list" where
  "identify_global_variables c_code =
     (let function_blocks = re_findall1 function_block_pattern c_code;
          remaining_code = foldl (\<lambda>r block. replace r block []) c_code function_blocks
      in to_set (re_findall var_pattern 3 remaining_code))"

fun global_lines :: "string list list \<Rightarrow> string list" where
  "global_lines [] = []"
| "global_lines ([const, type_name, var_name] # vs) =
     (const @ type_name @ '' '' @ var_name @ '';'') # global_lines vs"
| "global_lines (v # vs) = global_lines vs"

definition translate_global_variables :: "string list list \<Rightarrow> string list" where
  "translate_global_variables global_variables =
     (if global_variables \<noteq> [] then ''// Global variables'' # global_lines global_variables
      else [])"

subsection \<open>Structs and their functions\<close>

text \<open>\<^verbatim>\<open>struct\s+(\w+)\s*{([^}]*)}\<close>\<close>

definition struct_pattern :: re where
  "struct_pattern =
     seq [lit ''struct'', ws1, Grp 1 word, ws, lit ''{'', Grp 2 (Star (Ch (CNotSet ''}''))),
          lit ''}'']"

record func_info =
  f_name :: string
  f_return_type :: string
  f_param_name :: string
  f_other_params :: string
  f_body :: string

type_synonym structs_t = "(string \<times> string) list"

type_synonym struct_funcs_t = "(string \<times> func_info list) list"

fun add_struct :: "structs_t \<times> struct_funcs_t \<Rightarrow> string list \<Rightarrow> structs_t \<times> struct_funcs_t" where
  "add_struct (structs, s2f) [struct_name, struct_body] =
     (dict_set structs struct_name (strip struct_body), dict_set s2f struct_name [])"
| "add_struct (structs, s2f) g = (structs, s2f)"

definition identify_structs :: "string \<Rightarrow> structs_t \<times> struct_funcs_t" where
  "identify_structs c_code = foldl add_struct ([], []) (re_findall struct_pattern 2 c_code)"

text \<open>
  \<^verbatim>\<open>(\w+)\s+(\w+)\s*\(\s*struct\s+NAME\s*\*\s*(\w+)([^)]*)\)\s*{([^}]*)}\<close>,
  where \<open>NAME\<close> is the name of the struct.
\<close>

definition struct_function_pattern :: "string \<Rightarrow> re" where
  "struct_function_pattern struct_name =
     seq [Grp 1 word, ws1, Grp 2 word, ws, lit ''('', ws, lit ''struct'', ws1, lit struct_name,
          ws, lit ''*'', ws, Grp 3 word, Grp 4 (Star (Ch (CNotSet '')''))), lit '')'', ws,
          lit ''{'', Grp 5 (Star (Ch (CNotSet ''}''))), lit ''}'']"

fun funcs_of :: "struct_funcs_t \<Rightarrow> string \<Rightarrow> func_info list" where
  "funcs_of s2f struct_name = (case map_of s2f struct_name of None \<Rightarrow> [] | Some fs \<Rightarrow> fs)"

fun add_struct_function :: "string \<Rightarrow> struct_funcs_t \<Rightarrow> string list \<Rightarrow> struct_funcs_t" where
  "add_struct_function struct_name s2f [return_type, func_name, struct_param, other_params, func_body] =
     dict_set s2f struct_name
       (funcs_of s2f struct_name @
        [\<lparr>f_name = func_name, f_return_type = return_type, f_param_name = struct_param,
          f_other_params = other_params, f_body = func_body\<rparr>])"
| "add_struct_function struct_name s2f g = s2f"

definition identify_struct_functions :: "structs_t \<Rightarrow> struct_funcs_t \<Rightarrow> string \<Rightarrow> struct_funcs_t" where
  "identify_struct_functions structs s2f c_code =
     foldl (\<lambda>acc struct_name.
              foldl (add_struct_function struct_name) acc
                (re_findall (struct_function_pattern struct_name) 5 c_code))
       s2f (map fst structs)"

text \<open>The fields of a struct: the parts between semicolons that are not blank.\<close>

fun field_lines :: "string list \<Rightarrow> string list" where
  "field_lines [] = []"
| "field_lines (line # ls) =
     (if strip line \<noteq> [] then (indent_str @ strip line @ '';'') # field_lines ls
      else field_lines ls)"

definition method_decl :: "func_info \<Rightarrow> string" where
  "method_decl func =
     indent_str @ f_return_type func @ '' '' @ f_name func @ ''('' @
     strip (f_other_params func) @ '');''"

definition method_impl :: "string \<Rightarrow> func_info \<Rightarrow> string list" where
  "method_impl struct_name func =
     (let params = strip (f_other_params func);
          body = f_body func;
          body = replace body (f_param_name func @ ''>'') ''this->'';
          body = replace body (f_param_name func @ ''.'') ''this.''
      in [f_return_type func @ '' '' @ struct_name @ ''::'' @ f_name func @ ''('' @ params @
            '') {'',
          body,
          ''}''])"

definition class_lines :: "struct_funcs_t \<Rightarrow> string \<times> string \<Rightarrow> string list" where
  "class_lines s2f entry =
     (case entry of (struct_name, struct_body) \<Rightarrow>
       [''// Class converted from struct '' @ struct_name,
        ''class '' @ struct_name @ '' {'',
        ''public:''] @
       field_lines (split_on CHR '';'' struct_body) @
       [newline # indent_str @ ''// Constructor'',
        indent_str @ struct_name @ ''() {}''] @
       (if funcs_of s2f struct_name \<noteq> []
        then (newline # indent_str @ ''// Methods'') # map method_decl (funcs_of s2f struct_name)
        else []) @
       [''};''] @
       (if funcs_of s2f struct_name \<noteq> []
        then (newline # ''// Method implementations for class '' @ struct_name) #
             concat (map (method_impl struct_name) (funcs_of s2f struct_name))
        else []))"

definition translate_structs_to_classes :: "structs_t \<Rightarrow> struct_funcs_t \<Rightarrow> string list" where
  "translate_structs_to_classes structs s2f = concat (map (class_lines s2f) structs)"

subsection \<open>Function bodies\<close>

text \<open>
  What \<open>_process_function_body\<close> reads and updates of the translator: the set of
  header names and the set of variables allocated with \<open>malloc\<close>.
\<close>

record tstate =
  st_includes :: "string list"
  st_malloc_variables :: "string list"

text \<open>\<^verbatim>\<open>(\w+)\s*=\s*\((\w+)\s*\*\)\s*malloc\(sizeof\((\w+)\)\s*\*\s*(\w+)\);\<close>\<close>

definition malloc_pattern :: re where
  "malloc_pattern =
     seq [Grp 1 word, ws, lit ''='', ws, lit ''('', Grp 2 word, ws, lit ''*)'', ws,
          lit ''malloc(sizeof('', Grp 3 word, lit '')'', ws, lit ''*'', ws, Grp 4 word,
          lit '');'']"

text \<open>\<^verbatim>\<open>(\w+)\s*=\s*\((\w+)\s*\*\)\s*malloc\(sizeof\((\w+)\)\);\<close>\<close>

definition single_malloc_pattern :: re where
  "single_malloc_pattern =
     seq [Grp 1 word, ws, lit ''='', ws, lit ''('', Grp 2 word, ws, lit ''*)'', ws,
          lit ''malloc(sizeof('', Grp 3 word, lit ''));'']"

fun malloc_step :: "string list \<times> string \<Rightarrow> string list \<Rightarrow> string list \<times> string" where
  "malloc_step (mv, cpp_body) [var_name, type_name, alloc_type, n] =
     (set_add mv var_name,
      replace cpp_body
        (var_name @ '' = ('' @ type_name @ '' *)malloc(sizeof('' @ alloc_type @ '') * '' @
         n @ '');'')
        (var_name @ '' = new '' @ alloc_type @ ''['' @ n @ ''];''))"
| "malloc_step (mv, cpp_body) g = (mv, cpp_body)"

fun single_malloc_step :: "string list \<times> string \<Rightarrow> string list \<Rightarrow> string list \<times> string" where
  "single_malloc_step (mv, cpp_body) [var_name, type_name, alloc_type] =
     (set_add mv var_name,
      replace cpp_body
        (var_name @ '' = ('' @ type_name @ '' *)malloc(sizeof('' @ alloc_type @ ''));'')
        (var_name @ '' = new '' @ alloc_type @ '';''))"
| "single_malloc_step (mv, cpp_body) g = (mv, cpp_body)"

definition free_step :: "string \<Rightarrow> string \<Rightarrow> string" where
  "free_step cpp_body var =
     (if contains cpp_body (var @ '' = new '') \<and> contains cpp_body (var @ ''['')
      then replace cpp_body (''free('' @ var @ '');'') (''delete[] '' @ var @ '';'')
      else replace cpp_body (''free('' @ var @ '');'') (''delete '' @ var @ '';''))"

text \<open>The allocation pass: both kinds of \<open>malloc\<close>, then \<open>free\<close>.\<close>

definition alloc_pass :: "string list \<Rightarrow> string \<Rightarrow> string list \<times> string" where
  "alloc_pass mv body =
     (let (mv, cpp_body) = foldl malloc_step (mv, body) (re_findall malloc_pattern 4 body);
          (mv, cpp_body) =
             foldl single_malloc_step (mv, cpp_body) (re_findall single_malloc_pattern 3 cpp_body)
      in (mv, foldl free_step cpp_body mv))"

text \<open>\<^verbatim>\<open>printf\("([^"\\]*(?:\\.[^"\\]*)*)"(?:\s*,\s*([^;]*))?\);\<close>\<close>

definition printf_pattern :: re where
  "printf_pattern =
     seq [lit ''printf('', Ch (CLit dquote),
          Grp 1 (seq [Star (Ch (CNotSet [dquote, bslash])),
                      Star (seq [Ch (CLit bslash), Ch CDot, Star (Ch (CNotSet [dquote, bslash]))])]),
          Ch (CLit dquote),
          opt (seq [ws, lit '','', ws, Grp 2 (Star (Ch (CNotSet '';'')))]),
          lit '');'']"

text \<open>\<^verbatim>\<open>(%[diouxXfFeEgGaAcspn]|%\.\d+[fg])\<close>\<close>

definition fmt_split_pattern :: re where
  "fmt_split_pattern =
     Grp 1 (Alt (seq [lit ''%'', Ch (CSet ''diouxXfFeEgGaAcspn'')])
                (seq [lit ''%.'', plus (Ch CDigit), Ch (CSet ''fg'')]))"

text \<open>\<^verbatim>\<open>%\.(\d+)([fg])\<close>\<close>

definition fp_precision_pattern :: re where
  "fp_precision_pattern = seq [lit ''%.'', Grp 1 (plus (Ch CDigit)), Grp 2 (Ch (CSet ''fg''))]"

text \<open>\<^verbatim>\<open>%[diouxXfFeEgGaAcspn]\<close>\<close>

definition specifier_pattern :: re where
  "specifier_pattern = seq [lit ''%'', Ch (CSet ''diouxXfFeEgGaAcspn'')]"

text \<open>The loop over the parts of a format string; \<open>arg_idx\<close> counts the arguments used.\<close>

fun printf_parts :: "string list \<Rightarrow> nat \<Rightarrow> string \<Rightarrow> string list \<Rightarrow> string" where
  "printf_parts arg_list arg_idx cout_expr [] = cout_expr"
| "printf_parts arg_list arg_idx cout_expr (part # parts) =
     (case re_match fp_precision_pattern 2 part of
        Some g \<Rightarrow>
          (if arg_idx < length arg_list
           then printf_parts arg_list (Suc arg_idx)
                  (cout_expr @ ''fixed << setprecision('' @ group_text g 1 @ '') << '' @
                   arg_list ! arg_idx @ '' << '') parts
           else printf_parts arg_list arg_idx cout_expr parts)
      | None \<Rightarrow>
          (case re_match specifier_pattern 0 part of
             Some g \<Rightarrow>
               (if arg_idx < length arg_list
                then printf_parts arg_list (Suc arg_idx)
                       (cout_expr @ arg_list ! arg_idx @ '' << '') parts
                else printf_parts arg_list arg_idx cout_expr parts)
           | None \<Rightarrow>
               printf_parts arg_list arg_idx
                 (cout_expr @ [dquote] @ part @ [dquote] @ '' << '') parts))"

text \<open>
  One \<open>printf\<close> call with arguments, as a \<open>cout\<close> expression. (The source first
  searches the format string for a precision and does not use what it finds.)
\<close>

definition cout_with_args :: "string \<Rightarrow> string \<Rightarrow> string" where
  "cout_with_args format_str args =
     (let fmt_parts = filter (\<lambda>p. p \<noteq> []) (re_split fmt_split_pattern format_str);
          arg_list = map strip (split_on CHR '','' args);
          cout_expr = printf_parts arg_list 0 ''cout << '' fmt_parts
      in if endswith format_str [bslash, CHR ''n''] then cout_expr @ ''endl;''
         else take (length cout_expr - 4) cout_expr @ '';'')"

text \<open>
  One match of the \<open>printf\<close> pattern: group 0 is the call as written, group 1 the format
  string, group 2 the arguments (\<open>None\<close> when the call has none).
\<close>

definition printf_step :: "string \<Rightarrow> string option list \<Rightarrow> string" where
  "printf_step cpp_body g =
     (let format_str = group_text g 1;
          args = group_text g 2;
          original_printf = group_text g 0
      in if args \<noteq> [] then replace cpp_body original_printf (cout_with_args format_str args)
         else if endswith format_str [bslash, CHR ''n'']
         then replace cpp_body original_printf
                (''cout << '' @ [dquote] @ take (length format_str - 2) format_str @ [dquote] @
                 '' << endl;'')
         else replace cpp_body original_printf
                (''cout << '' @ [dquote] @ format_str @ [dquote] @ '';''))"

definition printf_pass :: "string \<Rightarrow> string" where
  "printf_pass cpp_body = foldl printf_step cpp_body (re_finditer printf_pattern 2 cpp_body)"

text \<open>\<^verbatim>\<open>scanf\("([^"]+)",\s*([^)]+)\);\<close>\<close>

definition scanf_pattern :: re where
  "scanf_pattern =
     seq [lit ''scanf('', Ch (CLit dquote), Grp 1 (plus (Ch (CNotSet [dquote]))),
          Ch (CLit dquote), lit '','', ws, Grp 2 (plus (Ch (CNotSet '')''))), lit '');'']"

definition cin_arg :: "string \<Rightarrow> string" where
  "cin_arg arg = ''cin >> '' @ (if startswith arg ''&'' then tl arg else arg) @ ''; ''"

fun scanf_step :: "string \<Rightarrow> string list \<Rightarrow> string" where
  "scanf_step cpp_body [format_str, args] =
     replace cpp_body
       (''scanf('' @ [dquote] @ format_str @ [dquote] @ '', '' @ args @ '');'')
       (concat (map cin_arg (map strip (split_on CHR '','' args))))"
| "scanf_step cpp_body g = cpp_body"

definition scanf_pass :: "string \<Rightarrow> string" where
  "scanf_pass cpp_body = foldl scanf_step cpp_body (re_findall scanf_pattern 2 cpp_body)"

definition math_functions :: "string list" where
  "math_functions =
     [''sin'', ''cos'', ''tan'', ''asin'', ''acos'', ''atan'', ''atan2'',
      ''sinh'', ''cosh'', ''tanh'', ''exp'', ''log'', ''log10'', ''pow'',
      ''sqrt'', ''ceil'', ''floor'', ''fabs'', ''fmod'']"

text \<open>\<^verbatim>\<open>\bFUNC\(\<close>, where \<open>FUNC\<close> is the name of the function.\<close>

definition math_pattern :: "string \<Rightarrow> re" where
  "math_pattern func = seq [WordB, lit func, lit ''('']"

definition math_step :: "py_error + string \<Rightarrow> string \<Rightarrow> py_error + string" where
  "math_step r func =
     (case r of
        Inl e \<Rightarrow> Inl e
      | Inr cpp_body \<Rightarrow>
          (if re_search (math_pattern func) 0 cpp_body \<noteq> None
           then re_sub (math_pattern func) 0 (''std::'' @ func @ ''('') None cpp_body
           else Inr cpp_body))"

definition math_pass :: "string list \<Rightarrow> string \<Rightarrow> py_error + string" where
  "math_pass includes cpp_body =
     (if ''math.h'' \<in> set includes then foldl math_step (Inr cpp_body) math_functions
      else Inr cpp_body)"

text \<open>\<^verbatim>\<open>void\s+swap\s*\(\s*(\w+)\s*\*\s*a\s*,\s*(\w+)\s*\*\s*b\s*\)\<close>\<close>

definition swap_pattern :: re where
  "swap_pattern =
     seq [lit ''void'', ws1, lit ''swap'', ws, lit ''('', ws, Grp 1 word, ws, lit ''*'', ws,
          lit ''a'', ws, lit '','', ws, Grp 2 word, ws, lit ''*'', ws, lit ''b'', ws, lit '')'']"

text \<open>The same, followed by \<^verbatim>\<open>\s*{([^}]*)}\<close>\<close>

definition swap_impl_pattern :: re where
  "swap_impl_pattern =
     seq [swap_pattern, ws, lit ''{'', Grp 3 (Star (Ch (CNotSet ''}''))), lit ''}'']"

definition swap_replacement :: string where
  "swap_replacement =
     ''// Use C++ std::swap instead of custom implementation'' @ [newline] @
     ''template<typename T>'' @ [newline] @
     ''void swap(T* a, T* b) {'' @ [newline] @
     ''    std::swap(*a, *b);'' @ [newline] @
     ''}''"

definition swap_pass :: "string \<Rightarrow> py_error + string" where
  "swap_pass cpp_body =
     (case re_search swap_pattern 2 cpp_body of
        None \<Rightarrow> Inr cpp_body
      | Some swap_match \<Rightarrow>
          (case re_search swap_impl_pattern 3 cpp_body of
             None \<Rightarrow> Inr cpp_body
           | Some (i, g) \<Rightarrow>
               (let impl_body = group_text g 3
                in if contains impl_body ''temp'' \<and> contains impl_body ''*a'' \<and>
                      contains impl_body ''*b''
                   then re_sub swap_impl_pattern 3 swap_replacement None cpp_body
                   else Inr cpp_body)))"

text \<open>\<^verbatim>\<open>(\w+)\s+\(\*(\w+)\)\(([^)]*)\)\s*=\s*(.+);\<close>\<close>

definition func_ptr_pattern :: re where
  "func_ptr_pattern =
     seq [Grp 1 word, ws1, lit ''(*'', Grp 2 word, lit '')('', Grp 3 (Star (Ch (CNotSet '')''))),
          lit '')'', ws, lit ''='', ws, Grp 4 (plus (Ch CDot)), lit '';'']"

definition func_ptr_params :: "string \<Rightarrow> string list" where
  "func_ptr_params params =
     (if strip params \<noteq> []
      then filter (\<lambda>param. param \<noteq> []) (map strip (split_on CHR '','' params))
      else [])"

fun func_ptr_step :: "py_error + tstate \<times> string \<Rightarrow> string list \<Rightarrow> py_error + tstate \<times> string" where
  "func_ptr_step (Inl e) g = Inl e"
| "func_ptr_step (Inr (st, cpp_body)) [return_type, ptr_name, params, func_ref] =
     (case re_sub func_ptr_pattern 4
             (''function<'' @ return_type @ ''('' @ join '', '' (func_ptr_params params) @
              '')> '' @ ptr_name @ '' = '' @ func_ref @ '';'')
             (Some 1) cpp_body of
        Inl e \<Rightarrow> Inl e
      | Inr cpp_body' \<Rightarrow>
          Inr (if \<not> list_ex (\<lambda>inc. contains inc ''functional'') (st_includes st)
               then st\<lparr>st_includes := set_add (st_includes st) ''functional''\<rparr>
               else st,
               cpp_body'))"
| "func_ptr_step (Inr (st, cpp_body)) g = Inr (st, cpp_body)"

definition func_ptr_pass :: "tstate \<Rightarrow> string \<Rightarrow> py_error + tstate \<times> string" where
  "func_ptr_pass st cpp_body =
     foldl func_ptr_step (Inr (st, cpp_body)) (re_findall func_ptr_pattern 4 cpp_body)"

text \<open>
  \<open>_process_function_body\<close>: the passes in their order, each on the text the one before
  left. (The last loop of the source, over the defines, does nothing.)
\<close>

definition process_function_body :: "tstate \<Rightarrow> string \<Rightarrow> py_error + tstate \<times> string" where
  "process_function_body st body =
     (let (mv, cpp_body) = alloc_pass (st_malloc_variables st) body;
          st = st\<lparr>st_malloc_variables := mv\<rparr>;
          cpp_body = printf_pass cpp_body;
          cpp_body = scanf_pass cpp_body
      in case math_pass (st_includes st) cpp_body of
           Inl e \<Rightarrow> Inl e
         | Inr cpp_body \<Rightarrow>
             (case swap_pass cpp_body of
                Inl e \<Rightarrow> Inl e
              | Inr cpp_body \<Rightarrow> func_ptr_pass st cpp_body))"

subsection \<open>Free functions\<close>

text \<open>\<^verbatim>\<open>(\w+)\s+(\w+)\s*\(([^)]*)\)\s*{([^{}]*(?:{[^{}]*}[^{}]*)*?)}\<close>\<close>

definition func_pattern :: re where
  "func_pattern =
     seq [Grp 1 word, ws1, Grp 2 word, ws, lit ''('', Grp 3 (Star (Ch (CNotSet '')''))),
          lit '')'', ws, lit ''{'',
          Grp 4 (seq [Star (Ch (CNotSet ''{}'')),
                      StarLazy (seq [lit ''{'', Star (Ch (CNotSet ''{}'')), lit ''}'',
                                     Star (Ch (CNotSet ''{}''))])]),
          lit ''}'']"

text \<open>The parameters of a free function: \<open>char *\<close> parameters become \<open>const string&\<close>.\<close>

fun cpp_params_of :: "string list \<Rightarrow> string list" where
  "cpp_params_of [] = []"
| "cpp_params_of (p # ps) =
     (let param = strip p
      in if param \<noteq> [] then
           (if contains param ''char *'' \<or> contains param ''char*''
            then (''const string& '' @ replace (last (split_ws [] param)) ''*'' []) #
                 cpp_params_of ps
            else param # cpp_params_of ps)
         else cpp_params_of ps)"

fun translate_function ::
  "structs_t \<Rightarrow> py_error + tstate \<times> string list \<Rightarrow> string list \<Rightarrow> py_error + tstate \<times> string list" where
  "translate_function structs (Inl e) g = Inl e"
| "translate_function structs (Inr (st, function_implementations))
     [return_type, func_name, params, body] =
     (if func_name = ''main'' then Inr (st, function_implementations)
      else if list_ex (\<lambda>struct_name. contains params (''struct '' @ struct_name @ '' *''))
                (map fst structs)
        then Inr (st, function_implementations)
      else (case process_function_body st body of
              Inl e \<Rightarrow> Inl e
            | Inr (st', cpp_body) \<Rightarrow>
                Inr (st',
                     function_implementations @
                     [''// C++ style function'',
                      return_type @ '' '' @ func_name @ ''('' @
                        join '', '' (cpp_params_of (split_on CHR '','' params)) @ '') {'',
                      cpp_body,
                      ''}'',
                      []])))"
| "translate_function structs (Inr (st, function_implementations)) g =
     Inr (st, function_implementations)"

definition translate_functions :: "structs_t \<Rightarrow> tstate \<Rightarrow> string \<Rightarrow> py_error + tstate \<times> string list" where
  "translate_functions structs st c_code =
     foldl (translate_function structs) (Inr (st, [])) (re_findall func_pattern 4 c_code)"

subsection \<open>The main function\<close>

text \<open>\<^verbatim>\<open>int\s+main\s*\([^)]*\)\<close>\<close>

definition main_signature_pattern :: re where
  "main_signature_pattern =
     seq [lit ''int'', ws1, lit ''main'', ws, lit ''('', Star (Ch (CNotSet '')'')), lit '')'']"

text \<open>
  The loop that counts braces, from the character at index \<open>i\<close> on: the index of the
  brace that brings the count to zero, or \<open>None\<close> for the source's -1.
\<close>

fun find_close :: "int \<Rightarrow> nat \<Rightarrow> string \<Rightarrow> nat option" where
  "find_close brace_count i [] = None"
| "find_close brace_count i (c # cs) =
     (if c = CHR ''{'' then find_close (brace_count + 1) (Suc i) cs
      else if c = CHR ''}'' then
        (if brace_count - 1 = 0 then Some i else find_close (brace_count - 1) (Suc i) cs)
      else find_close brace_count (Suc i) cs)"

text \<open>
  The first part of \<open>_translate_main_function\<close>: the text between the first opening
  brace after the signature of \<open>main\<close> and the brace that closes it. \<open>None\<close> stands
  for the three places where the source returns the empty list: no signature, no
  opening brace, no matching closing brace.
\<close>

definition main_body :: "string \<Rightarrow> string option" where
  "main_body c_code =
     (case re_search main_signature_pattern 0 c_code of
        None \<Rightarrow> None
      | Some (signature_pos, g) \<Rightarrow>
          (case find_from CHR ''{'' signature_pos 0 c_code of
             None \<Rightarrow> None
           | Some open_brace_pos \<Rightarrow>
               (case find_close 1 (open_brace_pos + 1) (drop (open_brace_pos + 1) c_code) of
                  None \<Rightarrow> None
                | Some close_brace_pos \<Rightarrow>
                    Some (take (close_brace_pos - (open_brace_pos + 1))
                            (drop (open_brace_pos + 1) c_code)))))"

text \<open>The second part: the lines of \<open>main\<close>, with the fixed signature.\<close>

definition translate_main_function :: "tstate \<Rightarrow> string \<Rightarrow> py_error + tstate \<times> string list" where
  "translate_main_function st c_code =
     (case main_body c_code of
        None \<Rightarrow> Inr (st, [])
      | Some body \<Rightarrow>
          (case process_function_body st body of
             Inl e \<Rightarrow> Inl e
           | Inr (st', cpp_body) \<Rightarrow>
               Inr (st',
                    [''// Main function'',
                     ''int main(int argc, char* argv[]) {'',
                     cpp_body,
                     ''}''])))"

subsection \<open>The whole translation\<close>

definition math_constant_lines :: "string list" where
  "math_constant_lines =
     [[],
      ''// Common math constants'',
      ''const double PI = 3.14159265358979323846;'',
      ''const double E = 2.71828182845904523536;'']"

text \<open>
  The first part of \<open>translate\<close>, on a new translator: the lines collected before the
  free functions (headers, constants, the namespace directive, the math constants,
  classes and global variables).
\<close>

definition translate_head :: "string \<Rightarrow> string list" where
  "translate_head c_code =
     (let includes = identify_includes c_code;
          needs_iomanip = identify_needs_iomanip c_code;
          defines = identify_defines c_code;
          global_variables =
            (if is_simple_program c_code then [] else identify_global_variables c_code);
          (structs, s2f) = identify_structs c_code;
          s2f = identify_struct_functions structs s2f c_code;
          cpp_code = translate_includes needs_iomanip includes @ [[]];
          define_lines = translate_defines defines;
          cpp_code = (if define_lines \<noteq> [] then cpp_code @ define_lines @ [[]] else cpp_code);
          cpp_code = cpp_code @ [''// Using standard namespace'', ''using namespace std;''];
          cpp_code =
            (if ''math.h'' \<in> set includes \<and> ''PI'' \<notin> set (map fst defines)
             then cpp_code @ math_constant_lines else cpp_code);
          cpp_code = cpp_code @ [[]];
          class_definitions = translate_structs_to_classes structs s2f;
          cpp_code =
            (if class_definitions \<noteq> [] then cpp_code @ class_definitions @ [[]] else cpp_code);
          global_vars = translate_global_variables global_variables
      in if global_vars \<noteq> [] then cpp_code @ global_vars @ [[]] else cpp_code)"

text \<open>
  The second part: the free functions and \<open>main\<close>, whose bodies share the sets of the
  translator, and the text joined from all lines. The result is the text returned, or
  the exception raised on the way.
\<close>

definition translate :: "string \<Rightarrow> py_error + string" where
  "translate c_code =
     (case translate_functions (fst (identify_structs c_code))
             \<lparr>st_includes = identify_includes c_code, st_malloc_variables = []\<rparr> c_code of
        Inl e \<Rightarrow> Inl e
      | Inr (st, function_implementations) \<Rightarrow>
          (case translate_main_function st c_code of
             Inl e \<Rightarrow> Inl e
           | Inr (st', main_function) \<Rightarrow>
               Inr (join [newline]
                      (translate_head c_code @ function_implementations @ main_function))))"

subsection \<open>Notions of the proofs\<close>

text \<open>
  A pattern never matches on the texts of \<open>P\<close> when every attempt fails on them,
  whichever continuation follows; \<open>no_malloc\<close> are the texts without the word
  \<open>malloc\<close>.
\<close>

definition never_matches :: "(string \<Rightarrow> bool) \<Rightarrow> re \<Rightarrow> bool" where
  "never_matches P r = (\<forall>k st. P (ms_rest st) \<longrightarrow> rmatch r k st = None)"

definition no_malloc :: "string \<Rightarrow> bool" where
  "no_malloc s = (\<not> contains s ''malloc'')"


section \<open>Properties\<close>

subsection \<open>Joined lines\<close>

lemma join_Cons: "ys \<noteq> [] \<Longrightarrow> join sep (x # ys) = x @ sep @ join sep ys"
  by (cases ys) simp_all

lemma join_append:
  "xs \<noteq> [] \<Longrightarrow> ys \<noteq> [] \<Longrightarrow> join sep (xs @ ys) = join sep xs @ sep @ join sep ys"
proof (induction xs)
  case Nil
  then show ?case by simp
next
  case (Cons x xs)
  show ?case
  proof (cases "xs = []")
    case True
    with Cons.prems show ?thesis by (simp add: join_Cons)
  next
    case False
    with Cons show ?thesis by (simp add: join_Cons)
  qed
qed

lemma join_two_inside:
  "\<exists>pre post. join sep (as @ x # y # bs) = pre @ x @ sep @ y @ post"
proof (induction as)
  case Nil
  show ?case
  proof (cases bs)
    case Nil
    then have "join sep ([] @ x # y # bs) = [] @ x @ sep @ y @ []" by simp
    then show ?thesis by blast
  next
    case (Cons b bs')
    then have "join sep ([] @ x # y # bs) = [] @ x @ sep @ y @ (sep @ join sep (b # bs'))"
      by simp
    then show ?thesis by blast
  qed
next
  case (Cons a as)
  then obtain pre post where "join sep (as @ x # y # bs) = pre @ x @ sep @ y @ post"
    by blast
  then have "join sep ((a # as) @ x # y # bs) = (a @ sep @ pre) @ x @ sep @ y @ post"
    by (simp add: join_Cons)
  then show ?case by blast
qed

lemma translate_head_nonempty: "translate_head c \<noteq> []"
  by (simp add: translate_head_def translate_includes_def Let_def split: prod.splits)

lemma hd_translate_head: "hd (translate_head c) = ''// C++ style includes''"
  by (simp add: translate_head_def translate_includes_def Let_def split: prod.splits)

lemma translate_head_math:
  assumes "''math.h'' \<in> set (identify_includes c)"
      and "''PI'' \<notin> set (map fst (identify_defines c))"
  shows "\<exists>as bs. translate_head c = as @ math_constant_lines @ bs"
proof -
  obtain structs s2f where ss: "identify_structs c = (structs, s2f)"
    by (cases "identify_structs c")
  define pre where "pre =
     (let cpp_code = translate_includes (identify_needs_iomanip c) (identify_includes c) @ [[]];
          define_lines = translate_defines (identify_defines c);
          cpp_code = (if define_lines \<noteq> [] then cpp_code @ define_lines @ [[]] else cpp_code)
      in cpp_code @ [''// Using standard namespace'', ''using namespace std;''])"
  have "\<exists>bs. translate_head c = pre @ math_constant_lines @ bs"
    using assms by (simp add: translate_head_def pre_def ss Let_def)
  then show ?thesis by blast
qed

subsection \<open>A translation without \<open>main\<close>\<close>

text \<open>
  Claim C1 says that \<open>translate\<close> fails, and returns nothing, when no \<open>main\<close> can
  be located or its braces do not balance. The source returns the text of the other
  sections instead. For an input that consists of one header line, there is no \<open>main\<close>
  and the translation returns the header section and the namespace directive.
\<close>

theorem translate_no_main_counterexample:
  "main_body ''#include <stdio.h>'' = None \<and>
   translate ''#include <stdio.h>'' =
   Inr (join [newline]
        [''// C++ style includes'',
         ''#include <algorithm>'',
         ''#include <iostream>'',
         '''',
         ''// Using standard namespace'',
         ''using namespace std;'',
         ''''])"
  by code_simp

text \<open>
  Claim C1 as amended: when no signature of \<open>main\<close> is found, no opening brace follows
  it, or no brace closes its body, \<open>translate\<close> does not fail on that account. Its
  result is the result of the free functions: the exception raised while one of their
  bodies is rewritten, and otherwise the text of all sections before \<open>main\<close>, joined
  line by line, with no section for \<open>main\<close>; that text starts with the header section.
\<close>

theorem translate_without_main:
  assumes "main_body c = None"
  shows "translate c =
           (case translate_functions (fst (identify_structs c))
                   \<lparr>st_includes = identify_includes c, st_malloc_variables = []\<rparr> c of
              Inl e \<Rightarrow> Inl e
            | Inr (st, function_implementations) \<Rightarrow>
                Inr (join [newline] (translate_head c @ function_implementations))) \<and>
         hd (translate_head c) = ''// C++ style includes''"
  using assms
  by (simp add: translate_def translate_main_function_def hd_translate_head
           split: sum.splits prod.splits)

text \<open>
  The amended claim at an input whose \<open>main\<close> has no closing brace.
\<close>

theorem translate_without_main_witness:
  "main_body ''int main() { return 0;'' = None \<and>
   translate ''int main() { return 0;'' =
     Inr (join [newline]
            [''// C++ style includes'',
             ''#include <algorithm>'',
             '''',
             ''// Using standard namespace'',
             ''using namespace std;'',
             ''''])"
proof -
  have h: "main_body ''int main() { return 0;'' = None"
    by code_simp
  have fs: "translate_functions (fst (identify_structs ''int main() { return 0;''))
              \<lparr>st_includes = identify_includes ''int main() { return 0;'',
               st_malloc_variables = []\<rparr> ''int main() { return 0;'' =
            Inr (\<lparr>st_includes = [], st_malloc_variables = []\<rparr>, [])"
    by code_simp
  have hd: "translate_head ''int main() { return 0;'' =
              [''// C++ style includes'', ''#include <algorithm>'', '''',
               ''// Using standard namespace'', ''using namespace std;'', '''']"
    by code_simp
  from translate_without_main[OF h] have
    "translate ''int main() { return 0;'' =
       (case translate_functions (fst (identify_structs ''int main() { return 0;''))
               \<lparr>st_includes = identify_includes ''int main() { return 0;'',
                st_malloc_variables = []\<rparr> ''int main() { return 0;'' of
          Inl e \<Rightarrow> Inl e
        | Inr (st, function_implementations) \<Rightarrow>
            Inr (join [newline]
                   (translate_head ''int main() { return 0;'' @ function_implementations)))"
    by (rule conjunct1)
  then have "translate ''int main() { return 0;'' =
     Inr (join [newline]
            [''// C++ style includes'',
             ''#include <algorithm>'',
             '''',
             ''// Using standard namespace'',
             ''using namespace std;'',
             ''''])"
    by (simp only: fs hd sum.case prod.case append_Nil2)
  with h show ?thesis by (rule_tac conjI)
qed

subsection \<open>Formatted output\<close>

text \<open>
  Claim C2 says that the statement \<^verbatim>\<open>printf("Value: %d\n", x);\<close> becomes an output chain of
  the literal \<^verbatim>\<open>"Value: "\<close>, the argument \<open>x\<close> and a line-end token, and that the newline
  escape of the format string does not stay as literal text. The source keeps the escape:
  it writes the literal \<^verbatim>\<open>"\n"\<close> and then \<open>endl\<close>.
\<close>

theorem printf_value_keeps_newline_literal:
  "process_function_body \<lparr>st_includes = [], st_malloc_variables = []\<rparr>
     (''printf('' @ [dquote] @ ''Value: %d'' @ [bslash, CHR ''n''] @ [dquote] @ '', x);'') =
   Inr (\<lparr>st_includes = [], st_malloc_variables = []\<rparr>,
        ''cout << '' @ [dquote] @ ''Value: '' @ [dquote] @ '' << x << '' @
        [dquote, bslash, CHR ''n'', dquote] @ '' << endl;'')"
  by code_simp

subsection \<open>Struct methods\<close>

text \<open>
  Claim C4 says that in an emitted method body every \<^verbatim>\<open>p->field\<close> of the self-parameter
  \<open>p\<close> is rewritten to an access through the implicit receiver. The source replaces the
  text \<^verbatim>\<open>p>\<close>, which a pointer access does not contain, so the body of the method below
  still reads \<^verbatim>\<open>c->n\<close>.
\<close>

theorem method_body_keeps_pointer_access:
  "translate
     (join [newline]
        [''struct Counter { int n; };'',
         ''void reset(struct Counter *c) { c->n = 0; }'',
         ''int main() { return 0; }'']) =
   Inr (join [newline]
        [''// C++ style includes'',
         ''#include <algorithm>'',
         '''',
         ''// Using standard namespace'',
         ''using namespace std;'',
         '''',
         ''// Class converted from struct Counter'',
         ''class Counter {'',
         ''public:'',
         ''    int n;'',
         '''',
         ''    // Constructor'',
         ''    Counter() {}'',
         '''',
         ''    // Methods'',
         ''    void reset();'',
         ''};'',
         '''',
         ''// Method implementations for class Counter'',
         ''void Counter::reset() {'',
         '' c->n = 0; '',
         ''}'',
         '''',
         ''// Main function'',
         ''int main(int argc, char* argv[]) {'',
         '' return 0; '',
         ''}''])"
  by code_simp

text \<open>
  Claim C5 says that the method declaration of the class has the integer parameter only.
  The source drops the self-parameter and keeps the comma that followed it.
\<close>

theorem method_declaration_keeps_comma:
  "translate
     (join [newline]
        [''struct Point { int x; int y; };'',
         ''void move(struct Point *p, int dx) { p->x = p->x + dx; }'',
         ''int main() { return 0; }'']) =
   Inr (join [newline]
        [''// C++ style includes'',
         ''#include <algorithm>'',
         '''',
         ''// Using standard namespace'',
         ''using namespace std;'',
         '''',
         ''// Class converted from struct Point'',
         ''class Point {'',
         ''public:'',
         ''    int x;'',
         ''    int y;'',
         '''',
         ''    // Constructor'',
         ''    Point() {}'',
         '''',
         ''    // Methods'',
         ''    void move(, int dx);'',
         ''};'',
         '''',
         ''// Method implementations for class Point'',
         ''void Point::move(, int dx) {'',
         '' p->x = p->x + dx; '',
         ''}'',
         '''',
         ''// Main function'',
         ''int main(int argc, char* argv[]) {'',
         '' return 0; '',
         ''}''])"
  by code_simp

subsection \<open>The swap idiom\<close>

text \<open>
  Claim C8 says that a function \<open>swap\<close> of two pointers with the usual body is replaced
  by a generic function that calls \<open>std::swap\<close>. The source looks for the definition of
  \<open>swap\<close> inside the bodies of functions, where the signature of the function itself is
  not, so the function is emitted as it was written.
\<close>

theorem swap_function_not_replaced:
  "translate
     (join [newline]
        [''void swap(int *a, int *b) { int temp = *a; *a = *b; *b = temp; }'',
         ''int main() { return 0; }'']) =
   Inr (join [newline]
        [''// C++ style includes'',
         ''#include <algorithm>'',
         '''',
         ''// Using standard namespace'',
         ''using namespace std;'',
         '''',
         ''// C++ style function'',
         ''void swap(int *a, int *b) {'',
         '' int temp = *a; *a = *b; *b = temp; '',
         ''}'',
         '''',
         ''// Main function'',
         ''int main(int argc, char* argv[]) {'',
         '' return 0; '',
         ''}''])"
  by code_simp

subsection \<open>The signature of \<open>main\<close>\<close>

text \<open>
  Claim C10: for every input whose \<open>main\<close> is found, the text that \<open>translate\<close> returns
  ends with the section of \<open>main\<close>: the fixed signature
  \<^verbatim>\<open>int main(int argc, char* argv[])\<close>, whatever the parameters of the original, and the body
  of the original as the function body rewriter leaves it.
\<close>

theorem main_signature_fixed:
  assumes "main_body c = Some body" and "translate c = Inr out"
  shows "\<exists>pre st st' cpp_body.
           process_function_body st body = Inr (st', cpp_body) \<and>
           out = pre @ [newline] @ ''// Main function'' @ [newline] @
                 ''int main(int argc, char* argv[]) {'' @ [newline] @
                 cpp_body @ [newline] @ ''}''"
proof -
  from assms(2) obtain st fs where
    fs: "translate_functions (fst (identify_structs c))
           \<lparr>st_includes = identify_includes c, st_malloc_variables = []\<rparr> c = Inr (st, fs)"
    by (auto simp: translate_def split: sum.splits prod.splits)
  from assms(2) fs obtain st' ls where
    ls: "translate_main_function st c = Inr (st', ls)" and
    out: "out = join [newline] (translate_head c @ fs @ ls)"
    by (auto simp: translate_def split: sum.splits prod.splits)
  from ls assms(1) obtain cpp_body where
    pb: "process_function_body st body = Inr (st', cpp_body)" and
    ls_eq: "ls = [''// Main function'', ''int main(int argc, char* argv[]) {'', cpp_body, ''}'']"
    by (auto simp: translate_main_function_def split: sum.splits prod.splits)
  have ne: "translate_head c @ fs \<noteq> []"
    using translate_head_nonempty by simp
  have "out = join [newline] ((translate_head c @ fs) @ ls)"
    using out by simp
  also have "\<dots> = join [newline] (translate_head c @ fs) @ [newline] @ join [newline] ls"
    using ne ls_eq by (subst join_append) simp_all
  finally have "out = join [newline] (translate_head c @ fs) @ [newline] @
                  ''// Main function'' @ [newline] @
                  ''int main(int argc, char* argv[]) {'' @ [newline] @
                  cpp_body @ [newline] @ ''}''"
    by (simp add: ls_eq)
  with pb show ?thesis by blast
qed

text \<open>
  Claim C10 at an input whose \<open>main\<close> is declared with \<^verbatim>\<open>(void)\<close>.
\<close>

theorem main_signature_fixed_witness:
  "main_body ''int main(void) { return 0; }'' = Some '' return 0; '' \<and>
   translate ''int main(void) { return 0; }'' =
     Inr (join [newline]
            [''// C++ style includes'',
             ''#include <algorithm>'',
             '''',
             ''// Using standard namespace'',
             ''using namespace std;'',
             '''',
             ''// Main function'',
             ''int main(int argc, char* argv[]) {'',
             '' return 0; '',
             ''}'']) \<and>
   (\<exists>pre st st' cpp_body.
      process_function_body st '' return 0; '' = Inr (st', cpp_body) \<and>
      join [newline]
        [''// C++ style includes'',
         ''#include <algorithm>'',
         '''',
         ''// Using standard namespace'',
         ''using namespace std;'',
         '''',
         ''// Main function'',
         ''int main(int argc, char* argv[]) {'',
         '' return 0; '',
         ''}''] =
      pre @ [newline] @ ''// Main function'' @ [newline] @
      ''int main(int argc, char* argv[]) {'' @ [newline] @ cpp_body @ [newline] @ ''}'')"
proof -
  have h1: "main_body ''int main(void) { return 0; }'' = Some '' return 0; ''"
    by code_simp
  have h2: "translate ''int main(void) { return 0; }'' =
     Inr (join [newline]
            [''// C++ style includes'',
             ''#include <algorithm>'',
             '''',
             ''// Using standard namespace'',
             ''using namespace std;'',
             '''',
             ''// Main function'',
             ''int main(int argc, char* argv[]) {'',
             '' return 0; '',
             ''}''])"
    by code_simp
  from main_signature_fixed[OF h1 h2] h1 h2 show ?thesis
    by blast
qed

subsection \<open>Header lines\<close>

lemma include_line_inject: "include_line a = include_line b \<longleftrightarrow> a = b"
  by (simp add: include_line_def)

lemma snd_unique:
  "distinct (map snd xs) \<Longrightarrow> (a, m) \<in> set xs \<Longrightarrow> (b, m) \<in> set xs \<Longrightarrow> a = b"
  by (induction xs) force+

lemma headers_snd_distinct: "distinct (map snd c_to_cpp_headers)"
  by (simp add: c_to_cpp_headers_def)

lemma headers_target_unique:
  "map_of c_to_cpp_headers a = Some m \<Longrightarrow> map_of c_to_cpp_headers b = Some m \<Longrightarrow> a = b"
  by (meson snd_unique headers_snd_distinct map_of_SomeD)

lemma headers_target_not_special:
  "map_of c_to_cpp_headers a = Some m \<Longrightarrow>
     m \<noteq> ''algorithm'' \<and> m \<noteq> ''iomanip'' \<and> m \<noteq> ''functional''"
  by (auto simp: c_to_cpp_headers_def split: if_splits)

lemma headers_functional: "map_of c_to_cpp_headers ''functional'' = None"
  by (simp add: c_to_cpp_headers_def)

lemma include_lines_map:
  "include_lines incs =
     map (\<lambda>h. include_line (mapped_header h)) (filter (\<lambda>h. h \<noteq> ''functional'') incs)"
  by (induction incs) auto

lemma special_lines:
  "include_line ''iomanip'' = ''#include <iomanip>''"
  "include_line ''functional'' = ''#include <functional>''"
  "include_line ''algorithm'' = ''#include <algorithm>''"
  by (simp_all add: include_line_def)

lemma comment_not_include: "''// C++ style includes'' \<noteq> include_line x"
  by (simp add: include_line_def)

lemma translate_includes_alt:
  "translate_includes b incs =
     ''// C++ style includes'' #
     (if b then [include_line ''iomanip''] else []) @
     (if ''functional'' \<in> set incs then [include_line ''functional''] else []) @
     include_line ''algorithm'' #
     map (\<lambda>h. include_line (mapped_header h)) (filter (\<lambda>h. h \<noteq> ''functional'') incs)"
  by (simp add: translate_includes_def include_lines_map special_lines)

lemma filter_eq_none: "h \<notin> set xs \<Longrightarrow> filter (\<lambda>x. x = h) xs = []"
  by (induction xs) auto

lemma filter_eq_once: "distinct xs \<Longrightarrow> h \<in> set xs \<Longrightarrow> length (filter (\<lambda>x. x = h) xs) = 1"
  by (induction xs) (auto simp: filter_eq_none)

lemma mapped_once:
  assumes "distinct incs" and "h \<in> set incs" and "map_of c_to_cpp_headers h = Some m"
      and "m \<notin> set incs"
  shows "count_list (translate_includes b incs) (include_line m) = 1"
proof -
  have hf: "h \<noteq> ''functional''"
    using assms(3) headers_functional by auto
  have sp: "m \<noteq> ''algorithm''" "m \<noteq> ''iomanip''" "m \<noteq> ''functional''"
    using headers_target_not_special[OF assms(3)] by simp_all
  have eq: "\<And>x. x \<in> set incs \<Longrightarrow> (x \<noteq> ''functional'' \<and> mapped_header x = m) = (x = h)"
  proof -
    fix x assume x: "x \<in> set incs"
    show "(x \<noteq> ''functional'' \<and> mapped_header x = m) = (x = h)"
    proof (cases "map_of c_to_cpp_headers x")
      case None
      then have "mapped_header x = x" by (simp add: mapped_header_def)
      with x assms(4) None assms(3) show ?thesis by auto
    next
      case (Some m')
      then have "mapped_header x = m'" by (simp add: mapped_header_def)
      with Some assms(3) hf headers_target_unique show ?thesis by auto
    qed
  qed
  have "count_list (map (\<lambda>h. include_line (mapped_header h))
           (filter (\<lambda>h. h \<noteq> ''functional'') incs)) (include_line m) =
        length (filter (\<lambda>x. x \<noteq> ''functional'' \<and> mapped_header x = m) incs)"
    by (induction incs) (auto simp: include_line_inject)
  also have "\<dots> = length (filter (\<lambda>x. x = h) incs)"
  proof -
    have "filter (\<lambda>x. x \<noteq> ''functional'' \<and> mapped_header x = m) incs =
          filter (\<lambda>x. x = h) incs"
      by (rule filter_cong) (simp_all add: eq)
    then show ?thesis by simp
  qed
  also have "\<dots> = 1"
    using assms(1,2) by (rule filter_eq_once)
  finally show ?thesis
    using sp by (simp add: translate_includes_alt include_line_inject comment_not_include)
qed

lemma unmapped_passes:
  assumes "h \<in> set incs" and "map_of c_to_cpp_headers h = None"
  shows "include_line h \<in> set (translate_includes b incs)"
proof (cases "h = ''functional''")
  case True
  with assms(1) show ?thesis by (simp add: translate_includes_alt)
next
  case False
  have "mapped_header h = h" using assms(2) by (simp add: mapped_header_def)
  with False assms(1) have
    "include_line h \<in> (\<lambda>h. include_line (mapped_header h)) ` {x \<in> set incs. x \<noteq> ''functional''}"
    by force
  then show ?thesis by (simp add: translate_includes_alt)
qed

lemma lines_distinct:
  assumes "distinct incs" and "''algorithm'' \<notin> set incs" and "''iomanip'' \<notin> set incs"
      and nc: "list_all (\<lambda>h. mapped_header h = h \<or> mapped_header h \<notin> set incs) incs"
  shows "distinct (translate_includes b incs)"
proof -
  let ?S = "{x \<in> set incs. x \<noteq> ''functional''}"
  have mh: "\<And>x. x \<in> set incs \<Longrightarrow> mapped_header x = x \<or> mapped_header x \<notin> set incs"
    using nc by (simp add: list_all_iff)
  have sp: "\<And>x. x \<in> ?S \<Longrightarrow> mapped_header x \<noteq> ''algorithm'' \<and>
               mapped_header x \<noteq> ''iomanip'' \<and> mapped_header x \<noteq> ''functional''"
  proof -
    fix x assume x: "x \<in> ?S"
    show "mapped_header x \<noteq> ''algorithm'' \<and> mapped_header x \<noteq> ''iomanip'' \<and>
          mapped_header x \<noteq> ''functional''"
    proof (cases "map_of c_to_cpp_headers x")
      case None
      then have "mapped_header x = x" by (simp add: mapped_header_def)
      with x assms(2,3) show ?thesis by auto
    next
      case (Some m)
      then have "mapped_header x = m" by (simp add: mapped_header_def)
      with headers_target_not_special[OF Some] show ?thesis by simp
    qed
  qed
  have inj: "inj_on (\<lambda>h. include_line (mapped_header h)) ?S"
  proof (rule inj_onI)
    fix x y assume x: "x \<in> ?S" and y: "y \<in> ?S"
      and e: "include_line (mapped_header x) = include_line (mapped_header y)"
    then have e': "mapped_header x = mapped_header y" by (simp add: include_line_inject)
    show "x = y"
    proof (cases "map_of c_to_cpp_headers x")
      case None
      then have mx: "mapped_header x = x" by (simp add: mapped_header_def)
      show ?thesis
      proof (cases "map_of c_to_cpp_headers y")
        case None
        then have "mapped_header y = y" by (simp add: mapped_header_def)
        with mx e' show ?thesis by simp
      next
        case (Some m)
        with mh[of y] y e' mx x show ?thesis by auto
      qed
    next
      case (Some m)
      then have mx: "mapped_header x = m" by (simp add: mapped_header_def)
      show ?thesis
      proof (cases "map_of c_to_cpp_headers y")
        case None
        then have "mapped_header y = y" by (simp add: mapped_header_def)
        with mh[of x] x y e' show ?thesis by auto
      next
        case (Some m')
        then have "mapped_header y = m'" by (simp add: mapped_header_def)
        with mx e' Some \<open>map_of c_to_cpp_headers x = Some m\<close> headers_target_unique
        show ?thesis by auto
      qed
    qed
  qed
  have d: "distinct (map (\<lambda>h. include_line (mapped_header h))
             (filter (\<lambda>h. h \<noteq> ''functional'') incs))"
    using assms(1) inj by (simp add: distinct_map)
  have notin: "include_line s \<notin> (\<lambda>h. include_line (mapped_header h)) ` ?S"
    if "s = ''algorithm'' \<or> s = ''iomanip'' \<or> s = ''functional''" for s
  proof
    assume "include_line s \<in> (\<lambda>h. include_line (mapped_header h)) ` ?S"
    then obtain x where x: "x \<in> ?S" and "include_line s = include_line (mapped_header x)"
      by blast
    then have "mapped_header x = s" by (simp add: include_line_inject)
    with sp[OF x] that show False by blast
  qed
  have n1: "include_line ''algorithm'' \<notin> (\<lambda>h. include_line (mapped_header h)) ` ?S"
    by (rule notin) simp
  have n2: "include_line ''iomanip'' \<notin> (\<lambda>h. include_line (mapped_header h)) ` ?S"
    by (rule notin) simp
  have n3: "include_line ''functional'' \<notin> (\<lambda>h. include_line (mapped_header h)) ` ?S"
    by (rule notin) simp
  have set_eq: "set (map (\<lambda>h. include_line (mapped_header h))
                  (filter (\<lambda>h. h \<noteq> ''functional'') incs)) =
                (\<lambda>h. include_line (mapped_header h)) ` ?S"
    by simp
  have c: "''// C++ style includes'' \<notin> (\<lambda>h. include_line (mapped_header h)) ` ?S"
    using comment_not_include by blast
  show ?thesis
    unfolding translate_includes_alt
    using d n1 n2 n3 c
    by (simp add: include_line_inject comment_not_include set_eq del: set_map set_filter)
qed

text \<open>
  Claim C6 says that every header of the table appears exactly once under its mapped
  name, and that header lines are deduplicated by mapped name. The source keeps a set of
  the names as they are written in the input, so a header of the table and a header that
  is written with the mapped name give the same line twice.
\<close>

theorem includes_twice_counterexample:
  "count_list
     (translate_includes False
        (identify_includes (join [newline] [''#include <stdio.h>'', ''#include <iostream>''])))
     ''#include <iostream>'' = 2"
  by code_simp

text \<open>
  Claim C6 as amended. The header names of an input \<open>c\<close> are the names that the search
  for the pattern \<^verbatim>\<open>#include\s+<([^>]+)>\<close> finds in it; a directive that is written
  in another way, such as \<^verbatim>\<open>#include<stdio.h>\<close> without white space or
  \<^verbatim>\<open>#include "x.h"\<close> with quotes, names no header and gives no line. Let \<open>incs\<close> be
  these names, each once, in any order of iteration. A header of the table appears
  exactly once under its mapped name, however often the input repeats it, when the input
  has no header that is written with that mapped name. A header that is not in the table
  passes through under its own name. Header lines are deduplicated by the name written
  in the input: no line is emitted twice when the input names neither \<open>algorithm\<close> nor
  \<open>iomanip\<close>, which the translator adds itself, and names no header by the mapped name
  of another of its headers. Every line of the header section is the comment, one of the
  three lines that the translator adds itself, or the line of a header name of the input.
\<close>

theorem header_lines_by_name:
  assumes "distinct incs" and "set incs = set (re_findall1 include_pattern c)"
  shows "(\<forall>h m. h \<in> set (re_findall1 include_pattern c) \<and>
                map_of c_to_cpp_headers h = Some m \<and>
                m \<notin> set (re_findall1 include_pattern c) \<longrightarrow>
            count_list (translate_includes b incs) (include_line m) = 1) \<and>
         (\<forall>h. h \<in> set (re_findall1 include_pattern c) \<and> map_of c_to_cpp_headers h = None \<longrightarrow>
            include_line h \<in> set (translate_includes b incs)) \<and>
         (''algorithm'' \<notin> set (re_findall1 include_pattern c) \<and>
          ''iomanip'' \<notin> set (re_findall1 include_pattern c) \<and>
          list_all (\<lambda>h. mapped_header h = h \<or>
                         mapped_header h \<notin> set (re_findall1 include_pattern c))
            (re_findall1 include_pattern c) \<longrightarrow>
            distinct (translate_includes b incs)) \<and>
         set (translate_includes b incs) \<subseteq>
           {''// C++ style includes'', ''#include <iomanip>'', ''#include <functional>'',
            ''#include <algorithm>''} \<union>
           (\<lambda>h. include_line (mapped_header h)) ` set (re_findall1 include_pattern c)"
proof -
  have la: "list_all P incs = list_all P (re_findall1 include_pattern c)" for P
    using assms(2) by (simp add: list_all_iff)
  have sub: "set (translate_includes b incs) \<subseteq>
      {''// C++ style includes'', ''#include <iomanip>'', ''#include <functional>'',
       ''#include <algorithm>''} \<union>
      (\<lambda>h. include_line (mapped_header h)) ` set incs"
    unfolding translate_includes_alt special_lines by auto
  show ?thesis
    unfolding assms(2)[symmetric] la[symmetric]
    using assms(1) mapped_once unmapped_passes lines_distinct sub by blast
qed

text \<open>
  The amended claim at an input that repeats \<^verbatim>\<open>stdio.h\<close>, names a header that is not in
  the table and has two directives that the pattern does not find, with the names
  iterated in the order opposite to their appearance.
\<close>

theorem header_lines_by_name_witness:
  "distinct [''mylib.h'', ''stdio.h''] \<and>
   set [''mylib.h'', ''stdio.h''] =
     set (re_findall1 include_pattern
            (join [newline]
               [''#include <stdio.h>'', ''#include <stdio.h>'', ''#include <mylib.h>'',
                ''#include<math.h>'', ''#include '' @ [dquote] @ ''x.h'' @ [dquote]])) \<and>
   count_list (translate_includes False [''mylib.h'', ''stdio.h''])
     (include_line ''iostream'') = 1 \<and>
   include_line ''mylib.h'' \<in> set (translate_includes False [''mylib.h'', ''stdio.h'']) \<and>
   distinct (translate_includes False [''mylib.h'', ''stdio.h'']) \<and>
   set (translate_includes False [''mylib.h'', ''stdio.h'']) \<subseteq>
     {''// C++ style includes'', ''#include <iomanip>'', ''#include <functional>'',
      ''#include <algorithm>''} \<union>
     (\<lambda>h. include_line (mapped_header h)) ` {''mylib.h'', ''stdio.h''} \<and>
   translate_includes False [''mylib.h'', ''stdio.h''] =
     [''// C++ style includes'', ''#include <algorithm>'', ''#include <mylib.h>'',
      ''#include <iostream>'']"
proof -
  have f: "re_findall1 include_pattern
            (join [newline]
               [''#include <stdio.h>'', ''#include <stdio.h>'', ''#include <mylib.h>'',
                ''#include<math.h>'', ''#include '' @ [dquote] @ ''x.h'' @ [dquote]]) =
           [''stdio.h'', ''stdio.h'', ''mylib.h'']"
    by code_simp
  have h1: "distinct [''mylib.h'', ''stdio.h'']"
    by simp
  have h2: "set [''mylib.h'', ''stdio.h''] =
     set (re_findall1 include_pattern
            (join [newline]
               [''#include <stdio.h>'', ''#include <stdio.h>'', ''#include <mylib.h>'',
                ''#include<math.h>'', ''#include '' @ [dquote] @ ''x.h'' @ [dquote]]))"
    unfolding f by auto
  have m1: "map_of c_to_cpp_headers ''stdio.h'' = Some ''iostream''"
    by (simp add: c_to_cpp_headers_def)
  have m2: "map_of c_to_cpp_headers ''mylib.h'' = None"
    by (simp add: c_to_cpp_headers_def)
  note T = header_lines_by_name[OF h1 h2, of False, unfolded f]
  have a: "count_list (translate_includes False [''mylib.h'', ''stdio.h''])
     (include_line ''iostream'') = 1"
    by (rule T[THEN conjunct1, rule_format, of "''stdio.h''" "''iostream''"])
       (simp add: m1)
  have b: "include_line ''mylib.h'' \<in> set (translate_includes False [''mylib.h'', ''stdio.h''])"
    by (rule T[THEN conjunct2, THEN conjunct1, rule_format, of "''mylib.h''"])
       (simp add: m2)
  have c: "distinct (translate_includes False [''mylib.h'', ''stdio.h''])"
    by (rule T[THEN conjunct2, THEN conjunct2, THEN conjunct1, rule_format])
       (simp add: mapped_header_def m1 m2)
  have d: "set (translate_includes False [''mylib.h'', ''stdio.h'']) \<subseteq>
     {''// C++ style includes'', ''#include <iomanip>'', ''#include <functional>'',
      ''#include <algorithm>''} \<union>
     (\<lambda>h. include_line (mapped_header h)) ` {''mylib.h'', ''stdio.h''}"
    using T[THEN conjunct2, THEN conjunct2, THEN conjunct2] by auto
  have e: "translate_includes False [''mylib.h'', ''stdio.h''] =
     [''// C++ style includes'', ''#include <algorithm>'', ''#include <mylib.h>'',
      ''#include <iostream>'']"
    by code_simp
  from h1 h2 a b c d e show ?thesis
    by (intro conjI)
qed

subsection \<open>Constants\<close>

lemma map_fst_dict_set: "map fst (dict_set d k v) = set_add (map fst d) k"
  by (induction d) (force simp: set_add_def)+

lemma re_findall_two:
  "re_findall r 2 s = map (\<lambda>g. [group_text g 1, group_text g 2]) (re_finditer r 2 s)"
proof -
  have "[1 ..< Suc 2] = [1, 2]"
    by (simp add: upt_rec)
  then show ?thesis
    by (simp add: re_findall_def del: group_text.simps upt_Suc)
qed

lemma foldl_add_define_keys:
  "map fst (foldl add_define d (map (\<lambda>g. [a g, b g]) ms)) =
     foldl set_add (map fst d) (map a ms)"
  by (induction ms arbitrary: d) (simp_all add: map_fst_dict_set)

lemma identify_defines_keys:
  "map fst (identify_defines c) = to_set (map hd (re_findall define_pattern 2 c))"
proof -
  have "map hd (map (\<lambda>g. [group_text g 1, group_text g 2]) ms) = map (\<lambda>g. group_text g 1) ms"
    for ms :: "string option list list"
    by (induction ms) (simp_all del: group_text.simps)
  then show ?thesis
    unfolding identify_defines_def re_findall_two foldl_add_define_keys to_set_def
    by (simp del: group_text.simps map_map)
qed


lemma set_foldl_set_add: "set (foldl set_add ys xs) = set ys \<union> set xs"
  by (induction xs arbitrary: ys) (auto simp: set_add_def)

lemma set_to_set: "set (to_set xs) = set xs"
  by (simp add: to_set_def set_foldl_set_add)








subsection \<open>The math constants\<close>

lemma identify_includes_set:
  "set (identify_includes c) = set (re_findall1 include_pattern c)"
  by (simp add: identify_includes_def set_to_set)

text \<open>
  Claim C9 says that every input that includes \<^verbatim>\<open>math.h\<close> and defines no macro \<open>PI\<close>
  gets the two constants. The source looks for the header with the pattern
  \<^verbatim>\<open>#include\s+<([^>]+)>\<close> and for the macro with the pattern
  \<^verbatim>\<open>#define\s+(\w+)\s+(.+)\<close>, anywhere in the text. An input that includes the header
  without white space, or with quotes, gets no constant; and an input in which a
  definition of \<open>PI\<close> stands in a comment gets neither of the two declarations.
\<close>

theorem math_header_undetected_counterexample:
  "(case translate (join [newline] [''#include<math.h>'', ''int main() { return 0; }'']) of
      Inl e \<Rightarrow> False
    | Inr out \<Rightarrow>
        out = join [newline]
                [''// C++ style includes'',
                 ''#include <algorithm>'',
                 '''',
                 ''// Using standard namespace'',
                 ''using namespace std;'',
                 '''',
                 ''// Main function'',
                 ''int main(int argc, char* argv[]) {'',
                 '' return 0; '',
                 ''}''] \<and>
        \<not> contains out ''const double PI = 3.14159265358979323846;'' \<and>
        \<not> contains out ''const double E = 2.71828182845904523536;'') \<and>
   (case translate
           (join [newline]
              [''#include '' @ [dquote] @ ''math.h'' @ [dquote], ''int main() { return 0; }'']) of
      Inl e \<Rightarrow> False
    | Inr out \<Rightarrow>
        out = join [newline]
                [''// C++ style includes'',
                 ''#include <algorithm>'',
                 '''',
                 ''// Using standard namespace'',
                 ''using namespace std;'',
                 '''',
                 ''// Main function'',
                 ''int main(int argc, char* argv[]) {'',
                 '' return 0; '',
                 ''}''] \<and>
        \<not> contains out ''const double PI = 3.14159265358979323846;'' \<and>
        \<not> contains out ''const double E = 2.71828182845904523536;'') \<and>
   (case translate
           (join [newline]
              [''#include <math.h>'', ''// #define PI 3'', ''int main() { return 0; }'']) of
      Inl e \<Rightarrow> False
    | Inr out \<Rightarrow>
        out = join [newline]
                [''// C++ style includes'',
                 ''#include <algorithm>'',
                 ''#include <cmath>'',
                 '''',
                 ''// Constants (converted from #define)'',
                 ''const int PI = 3;'',
                 '''',
                 ''// Using standard namespace'',
                 ''using namespace std;'',
                 '''',
                 ''// Main function'',
                 ''int main(int argc, char* argv[]) {'',
                 '' return 0; '',
                 ''}''] \<and>
        \<not> contains out ''const double PI = 3.14159265358979323846;'' \<and>
        \<not> contains out ''const double E = 2.71828182845904523536;'')"
  by code_simp

text \<open>
  Claim C9 as amended: for every input in which the search for the pattern
  \<^verbatim>\<open>#include\s+<([^>]+)>\<close> finds the name \<^verbatim>\<open>math.h\<close> and the search for the pattern
  \<^verbatim>\<open>#define\s+(\w+)\s+(.+)\<close> finds no definition of the name \<open>PI\<close>, the text that
  \<open>translate\<close> returns contains the declarations of the constants \<open>PI\<close> and \<open>E\<close>, on two
  lines that follow one another.
\<close>

theorem math_constants_added:
  assumes "''math.h'' \<in> set (re_findall1 include_pattern c)"
      and "''PI'' \<notin> set (map hd (re_findall define_pattern 2 c))"
      and "translate c = Inr out"
  shows "\<exists>pre post.
           out = pre @ ''const double PI = 3.14159265358979323846;'' @ [newline] @
                 ''const double E = 2.71828182845904523536;'' @ post"
proof -
  have i: "''math.h'' \<in> set (identify_includes c)"
    using assms(1) by (simp add: identify_includes_set)
  have "set (map fst (identify_defines c)) = set (map hd (re_findall define_pattern 2 c))"
    unfolding identify_defines_keys by (rule set_to_set)
  with assms(2) have d: "''PI'' \<notin> set (map fst (identify_defines c))"
    by simp
  from translate_head_math[OF i d] obtain as bs where
    hd: "translate_head c = as @ math_constant_lines @ bs" by blast
  from assms(3) obtain fs ls where
    out: "out = join [newline] (translate_head c @ fs @ ls)"
    by (auto simp: translate_def split: sum.splits prod.splits)
  have "translate_head c @ fs @ ls =
          (as @ [[], ''// Common math constants'']) @
          ''const double PI = 3.14159265358979323846;'' #
          ''const double E = 2.71828182845904523536;'' # (bs @ fs @ ls)"
    by (simp add: hd math_constant_lines_def)
  with out join_two_inside[of "[newline]" "as @ [[], ''// Common math constants'']"
      "''const double PI = 3.14159265358979323846;''"
      "''const double E = 2.71828182845904523536;''" "bs @ fs @ ls"]
  show ?thesis by simp
qed

text \<open>
  The amended claim at an input that includes \<^verbatim>\<open>math.h\<close> in the way the pattern finds.
\<close>

theorem math_constants_added_witness:
  "''math.h'' \<in> set (re_findall1 include_pattern
      (join [newline] [''#include <math.h>'', ''int main() { return 0; }''])) \<and>
   ''PI'' \<notin> set (map hd (re_findall define_pattern 2
      (join [newline] [''#include <math.h>'', ''int main() { return 0; }'']))) \<and>
   translate (join [newline] [''#include <math.h>'', ''int main() { return 0; }'']) =
     Inr (join [newline]
            [''// C++ style includes'',
             ''#include <algorithm>'',
             ''#include <cmath>'',
             '''',
             ''// Using standard namespace'',
             ''using namespace std;'',
             '''',
             ''// Common math constants'',
             ''const double PI = 3.14159265358979323846;'',
             ''const double E = 2.71828182845904523536;'',
             '''',
             ''// Main function'',
             ''int main(int argc, char* argv[]) {'',
             '' return 0; '',
             ''}'']) \<and>
   (\<exists>pre post.
      join [newline]
        [''// C++ style includes'',
         ''#include <algorithm>'',
         ''#include <cmath>'',
         '''',
         ''// Using standard namespace'',
         ''using namespace std;'',
         '''',
         ''// Common math constants'',
         ''const double PI = 3.14159265358979323846;'',
         ''const double E = 2.71828182845904523536;'',
         '''',
         ''// Main function'',
         ''int main(int argc, char* argv[]) {'',
         '' return 0; '',
         ''}''] =
      pre @ ''const double PI = 3.14159265358979323846;'' @ [newline] @
      ''const double E = 2.71828182845904523536;'' @ post)"
proof -
  have h1: "''math.h'' \<in> set (re_findall1 include_pattern
      (join [newline] [''#include <math.h>'', ''int main() { return 0; }'']))"
    by code_simp
  have h2: "''PI'' \<notin> set (map hd (re_findall define_pattern 2
      (join [newline] [''#include <math.h>'', ''int main() { return 0; }''])))"
    by code_simp
  have h3: "translate (join [newline] [''#include <math.h>'', ''int main() { return 0; }'']) =
     Inr (join [newline]
            [''// C++ style includes'',
             ''#include <algorithm>'',
             ''#include <cmath>'',
             '''',
             ''// Using standard namespace'',
             ''using namespace std;'',
             '''',
             ''// Common math constants'',
             ''const double PI = 3.14159265358979323846;'',
             ''const double E = 2.71828182845904523536;'',
             '''',
             ''// Main function'',
             ''int main(int argc, char* argv[]) {'',
             '' return 0; '',
             ''}''])"
    by code_simp
  from math_constants_added[OF h1 h2 h3] h1 h2 h3 show ?thesis
    by blast
qed

subsection \<open>Texts that a pattern cannot match\<close>

lemma ms_rest_set_group: "ms_rest (set_group i st st') = ms_rest st'"
  by (cases st; cases st') simp

lemma star_greedy_dead:
  assumes f: "\<And>k' st'. (\<And>s. P (ms_rest s) \<Longrightarrow> k' s = None) \<Longrightarrow> P (ms_rest st') \<Longrightarrow> f k' st' = None"
      and k: "\<And>s. P (ms_rest s) \<Longrightarrow> k s = None"
      and st: "P (ms_rest st)"
  shows "star_greedy n f k st = None"
  using st
proof (induction n arbitrary: st)
  case 0
  then show ?case by (simp add: k)
next
  case (Suc n)
  have "f (\<lambda>st'. if ms_pos st < ms_pos st' then star_greedy n f k st' else None) st = None"
    by (rule f) (simp_all add: Suc)
  then show ?case by (simp add: k Suc.prems)
qed

lemma star_lazy_dead:
  assumes f: "\<And>k' st'. (\<And>s. P (ms_rest s) \<Longrightarrow> k' s = None) \<Longrightarrow> P (ms_rest st') \<Longrightarrow> f k' st' = None"
      and k: "\<And>s. P (ms_rest s) \<Longrightarrow> k s = None"
      and st: "P (ms_rest st)"
  shows "star_lazy n f k st = None"
  using st
proof (induction n arbitrary: st)
  case 0
  then show ?case by (simp add: k)
next
  case (Suc n)
  have "f (\<lambda>st'. if ms_pos st < ms_pos st' then star_lazy n f k st' else None) st = None"
    by (rule f) (simp_all add: Suc)
  then show ?case by (simp add: k Suc.prems)
qed

lemma rmatch_dead:
  assumes sc: "\<And>x xs. P (x # xs) \<Longrightarrow> P xs"
      and k: "\<And>s. P (ms_rest s) \<Longrightarrow> k s = None"
      and st: "P (ms_rest st)"
  shows "rmatch r k st = None"
  using k st
proof (induction r arbitrary: k st)
  case (Ch c)
  obtain p n rest g where s: "st = MState p n rest g" by (cases st)
  show ?case
  proof (cases rest)
    case Nil
    with s show ?thesis by simp
  next
    case (Cons x xs)
    with s Ch.prems(2) have "P xs" using sc by simp
    with s Cons Ch.prems(1) show ?thesis by simp
  qed
next
  case Eps
  then show ?case by simp
next
  case (Cat a b)
  have "rmatch a (rmatch b k) st = None"
    by (rule Cat.IH(1)) (simp_all add: Cat.IH(2) Cat.prems)
  then show ?case by simp
next
  case (Alt a b)
  then show ?case by simp
next
  case (Star a)
  have "star_greedy (length (ms_rest st)) (rmatch a) k st = None"
    by (rule star_greedy_dead[where P = P]) (simp_all add: Star)
  then show ?case by simp
next
  case (StarLazy a)
  have "star_lazy (length (ms_rest st)) (rmatch a) k st = None"
    by (rule star_lazy_dead[where P = P]) (simp_all add: StarLazy)
  then show ?case by simp
next
  case (Grp i a)
  have "rmatch a (\<lambda>st'. k (set_group i st st')) st = None"
    by (rule Grp.IH) (simp_all add: Grp.prems ms_rest_set_group)
  then show ?case by simp
next
  case WordB
  then show ?case by simp
qed

lemma lit_Cons: "lit (c # cs) = Cat (Ch (CLit c)) (lit cs)"
  by (simp add: lit_def seq_def)

lemma lit_Nil: "lit [] = Eps"
  by (simp add: lit_def seq_def)

lemma seq_Cons: "seq (a # as) = Cat a (seq as)"
  by (simp add: seq_def)

lemma lit_fail: "\<not> startswith (ms_rest st) l \<Longrightarrow> rmatch (lit l) k st = None"
proof (induction l arbitrary: st k)
  case Nil
  then show ?case by simp
next
  case (Cons c cs)
  obtain p n rest g where s: "st = MState p n rest g" by (cases st)
  show ?case
  proof (cases rest)
    case Nil
    with s show ?thesis by (simp add: lit_Cons)
  next
    case (Cons x xs)
    with s Cons.prems Cons.IH show ?thesis by (simp add: lit_Cons)
  qed
qed

lemma startswith_append: "startswith s (a @ b) \<Longrightarrow> startswith s a"
  by (induction s a rule: startswith.induct) auto

lemma startswith_contains: "startswith s a \<Longrightarrow> contains s a"
  by (cases s) (auto elim: startswith.elims)

lemma contains_tl: "\<not> contains (x # xs) l \<Longrightarrow> \<not> contains xs l"
  by simp

lemma no_malloc_tl: "no_malloc (x # xs) \<Longrightarrow> no_malloc xs"
  by (simp add: no_malloc_def)

lemma never_head: "never_matches P a \<Longrightarrow> never_matches P (seq (a # as))"
  by (simp add: never_matches_def seq_Cons)

lemma never_tail:
  assumes "never_matches no_malloc (seq as)"
  shows "never_matches no_malloc (seq (a # as))"
  unfolding never_matches_def seq_Cons rmatch.simps
proof (intro allI impI)
  fix k st assume a: "no_malloc (ms_rest st)"
  show "rmatch a (rmatch (seq as) k) st = None"
  proof (rule rmatch_dead[where P = no_malloc])
    show "\<And>x xs. no_malloc (x # xs) \<Longrightarrow> no_malloc xs"
      by (rule no_malloc_tl)
    show "\<And>s. no_malloc (ms_rest s) \<Longrightarrow> rmatch (seq as) k s = None"
      using assms by (simp add: never_matches_def)
    show "no_malloc (ms_rest st)"
      by (rule a)
  qed
qed

lemma never_malloc_lit: "never_matches no_malloc (lit ''malloc(sizeof('')"
  unfolding never_matches_def
proof (intro allI impI)
  fix k st assume a: "no_malloc (ms_rest st)"
  have "\<not> startswith (ms_rest st) ''malloc(sizeof(''"
  proof
    assume "startswith (ms_rest st) ''malloc(sizeof(''"
    then have "startswith (ms_rest st) (''malloc'' @ ''(sizeof('')" by simp
    then have "startswith (ms_rest st) ''malloc''" by (rule startswith_append)
    with a show False using startswith_contains by (auto simp: no_malloc_def)
  qed
  then show "rmatch (lit ''malloc(sizeof('') k st = None" by (rule lit_fail)
qed

lemma malloc_pattern_never: "never_matches no_malloc malloc_pattern"
  unfolding malloc_pattern_def
  by (rule never_head[OF never_malloc_lit] never_tail)+

lemma single_malloc_pattern_never: "never_matches no_malloc single_malloc_pattern"
  unfolding single_malloc_pattern_def
  by (rule never_head[OF never_malloc_lit] never_tail)+

lemma scan_never:
  assumes r: "never_matches no_malloc r"
  shows "no_malloc s \<Longrightarrow> scan r ng 0 prev s = map TChar s"
proof (induction s arbitrary: prev)
  case Nil
  then show ?case by simp
next
  case (Cons x xs)
  have "match_at r ng prev (x # xs) = None"
    using r Cons.prems by (simp add: match_at_def never_matches_def)
  with Cons no_malloc_tl show ?case by auto
qed

lemma matches_of_chars: "matches_of (map TChar s) = []"
  by (induction s) simp_all

subsection \<open>Matches at the start of a text\<close>

lemma match_array_statement:
  "match_at malloc_pattern 4 None (''p = (int *)malloc(sizeof(int) * 10);'' @ t) =
     Some (36, [Some ''p = (int *)malloc(sizeof(int) * 10);'', Some ''p'', Some ''int'',
                Some ''int'', Some ''10''])"
  by (simp add: match_at_def malloc_pattern_def seq_def lit_def plus_def ws_def word_def
        ws1_def is_word_def is_space_def Let_def eval_nat_numeral)

lemma scan_array_statement:
  "no_malloc t \<Longrightarrow> scan malloc_pattern 4 0 None (''p = (int *)malloc(sizeof(int) * 10);'' @ t) =
     TMatch [Some ''p = (int *)malloc(sizeof(int) * 10);'', Some ''p'', Some ''int'',
                Some ''int'', Some ''10''] # map TChar t"
  using match_array_statement[of t]
  by (simp add: scan_never[OF malloc_pattern_never] eval_nat_numeral)

lemma scan_array_on_single_statement:
  assumes "no_malloc t"
  shows "scan malloc_pattern 4 0 None (''p = (int *)malloc(sizeof(int));'' @ t) =
     map TChar (''p = (int *)malloc(sizeof(int));'' @ t)"
proof -
  have tail: "scan malloc_pattern 4 0 (Some CHR '';'') t = map TChar t"
    using assms by (rule scan_never[OF malloc_pattern_never])
  show ?thesis
    using tail
    by (simp add: match_at_def malloc_pattern_def seq_def lit_def plus_def ws_def word_def
          ws1_def is_word_def is_space_def Let_def eval_nat_numeral)
qed

lemma match_single_statement:
  "match_at single_malloc_pattern 3 None (''p = (int *)malloc(sizeof(int));'' @ t) =
     Some (31, [Some ''p = (int *)malloc(sizeof(int));'', Some ''p'', Some ''int'',
                Some ''int''])"
  by (simp add: match_at_def single_malloc_pattern_def seq_def lit_def plus_def ws_def word_def
        ws1_def is_word_def is_space_def Let_def eval_nat_numeral)

subsection \<open>Texts put together\<close>

lemma startswith_prefix: "startswith u l \<Longrightarrow> startswith (u @ v) l"
  by (induction u l rule: startswith.induct) auto

lemma startswith_length: "startswith s l \<Longrightarrow> length l \<le> length s"
  by (induction s l rule: startswith.induct) auto

lemma startswith_trans: "startswith t s \<Longrightarrow> startswith s l \<Longrightarrow> startswith t l"
proof (induction t s arbitrary: l rule: startswith.induct)
  case (1 s)
  then show ?case by (cases l) auto
next
  case (2 p ps)
  then show ?case by simp
next
  case (3 c cs p ps)
  then show ?case by (cases l) auto
qed

lemma startswith_straddle:
  "startswith (u @ v) l \<Longrightarrow> startswith u l \<or> (v \<noteq> [] \<and> hd v \<in> set l)"
proof (induction u arbitrary: l)
  case Nil
  then show ?case by (cases l; cases v) auto
next
  case (Cons c u)
  show ?case
  proof (cases l)
    case Nil
    then show ?thesis by simp
  next
    case (Cons b bs)
    with Cons.prems have "c = b" and "startswith (u @ v) bs" by simp_all
    with Cons.IH[of bs] Cons show ?thesis by auto
  qed
qed

lemma contains_Nil: "contains t []"
  by (cases t) simp_all

lemma contains_prefix: "contains u l \<Longrightarrow> contains (u @ v) l"
proof (induction u)
  case Nil
  then show ?case by (simp add: contains_Nil)
next
  case (Cons c u)
  then show ?case using startswith_prefix[of "c # u" l v] by auto
qed

lemma contains_append:
  assumes "\<not> contains u l" and "\<not> contains v l" and "v = [] \<or> hd v \<notin> set l"
  shows "\<not> contains (u @ v) l"
  using assms(1)
proof (induction u)
  case Nil
  then show ?case using assms(2) by simp
next
  case (Cons c u)
  have "\<not> startswith ((c # u) @ v) l"
    using startswith_straddle[of "c # u" v l] Cons.prems assms(3) by auto
  with Cons show ?case by simp
qed

lemma startswith_contains_trans: "startswith t s \<Longrightarrow> contains s l \<Longrightarrow> contains t l"
proof (induction s arbitrary: t)
  case Nil
  then show ?case by (simp add: contains_Nil)
next
  case (Cons x xs)
  from Cons.prems(1) obtain ts where t: "t = x # ts" and ts: "startswith ts xs"
    by (cases t) auto
  from Cons.prems(2) consider "startswith (x # xs) l" | "contains xs l" by auto
  then show ?case
  proof cases
    case 1
    with Cons.prems(1) have "startswith t l" by (rule startswith_trans)
    then show ?thesis by (rule startswith_contains)
  next
    case 2
    with Cons.IH ts have "contains ts l" by blast
    with t show ?thesis by simp
  qed
qed

lemma replace_from_none:
  "(\<And>t'. startswith t' old \<Longrightarrow> contains t' l) \<Longrightarrow> \<not> contains t l \<Longrightarrow>
   replace_from 0 old new t = t"
proof (induction t)
  case Nil
  then show ?case by simp
next
  case (Cons c cs)
  from Cons.prems have "\<not> startswith (c # cs) old" by blast
  moreover from Cons.prems(2) have "\<not> contains cs l" by simp
  ultimately show ?case using Cons by simp
qed

lemma no_malloc_free: "no_malloc mid \<Longrightarrow> no_malloc (mid @ ''free(p);'')"
  unfolding no_malloc_def
  by (rule contains_append) simp_all

lemma contains_index_free: "contains (mid @ ''free(p);'') ''p['' = contains mid ''p[''"
proof
  assume a: "contains (mid @ ''free(p);'') ''p[''"
  show "contains mid ''p[''"
  proof (rule ccontr)
    assume "\<not> contains mid ''p[''"
    then have "\<not> contains (mid @ ''free(p);'') ''p[''"
      by (rule contains_append) simp_all
    with a show False by simp
  qed
next
  assume "contains mid ''p[''"
  then show "contains (mid @ ''free(p);'') ''p[''" by (rule contains_prefix)
qed

lemma free_no_straddle:
  "startswith (u @ ''free(p);'') ''free(p);'' \<Longrightarrow> u = [] \<or> startswith u ''free(p);''"
  apply (cases u, simp)
  subgoal for c1 u1
    apply (cases u1, simp)
    subgoal for c2 u2
      apply (cases u2, simp)
      subgoal for c3 u3
        apply (cases u3, simp)
        subgoal for c4 u4
          apply (cases u4, simp)
          subgoal for c5 u5
            apply (cases u5, simp)
            subgoal for c6 u6
              apply (cases u6, simp)
              subgoal for c7 u7
                apply (cases u7, simp)
                apply simp
                done
              done
            done
          done
        done
      done
    done
  done

lemma replace_free_tail:
  "k \<le> length mid \<Longrightarrow>
   replace_from k ''free(p);'' d (mid @ ''free(p);'') = replace_from k ''free(p);'' d mid @ d"
proof (induction mid arbitrary: k)
  case Nil
  then show ?case by (simp add: eval_nat_numeral)
next
  case (Cons c m)
  show ?case
  proof (cases k)
    case (Suc k')
    with Cons show ?thesis by simp
  next
    case 0
    show ?thesis
    proof (cases "startswith ((c # m) @ ''free(p);'') ''free(p);''")
      case True
      with free_no_straddle[of "c # m"] have s: "startswith (c # m) ''free(p);''" by simp
      then have "length ''free(p);'' \<le> length (c # m)" by (rule startswith_length)
      then have "7 \<le> length m" by simp
      then have "replace_from 7 ''free(p);'' d (m @ ''free(p);'') =
                 replace_from 7 ''free(p);'' d m @ d"
        by (rule Cons.IH)
      with True s 0 show ?thesis by (simp add: eval_nat_numeral)
    next
      case False
      then have "\<not> startswith (c # m) ''free(p);''"
        using startswith_prefix by blast
      with False 0 Cons.IH[of 0] show ?thesis by (simp del: startswith.simps)
    qed
  qed
qed

subsection \<open>The allocation pass\<close>

lemma malloc_texts_contain:
  "startswith t' ''p = (int *)malloc(sizeof(int) * 10);'' \<Longrightarrow> contains t' ''malloc''"
  "startswith t' ''p = (int *)malloc(sizeof(int));'' \<Longrightarrow> contains t' ''malloc''"
  by (erule startswith_contains_trans, simp)+

lemma findall_array:
  assumes "no_malloc t"
  shows "re_findall malloc_pattern 4 (''p = (int *)malloc(sizeof(int) * 10);'' @ t) =
           [[''p'', ''int'', ''int'', ''10'']]"
proof -
  have u: "[1 ..< Suc 4] = [1, 2, 3, 4]"
    by (simp add: upt_rec)
  show ?thesis
    unfolding re_findall_def re_finditer_def scan_array_statement[OF assms] u
    by (simp add: matches_of_chars)
qed

lemma replace_array:
  assumes "no_malloc t"
  shows "replace (''p = (int *)malloc(sizeof(int) * 10);'' @ t)
           ''p = (int *)malloc(sizeof(int) * 10);'' ''p = new int[10];'' =
         ''p = new int[10];'' @ t"
proof -
  have "replace_from 0 ''p = (int *)malloc(sizeof(int) * 10);'' ''p = new int[10];'' t = t"
    using assms by (intro replace_from_none[where l = "''malloc''"] malloc_texts_contain)
      (simp_all add: no_malloc_def)
  then show ?thesis
    by (simp add: replace_def eval_nat_numeral)
qed

lemma findall_single_after_array:
  assumes "no_malloc t"
  shows "re_findall single_malloc_pattern 3 (''p = new int[10];'' @ t) = []"
proof -
  have tail: "scan single_malloc_pattern 3 0 (Some CHR '';'') t = map TChar t"
    using assms by (rule scan_never[OF single_malloc_pattern_never])
  have "scan single_malloc_pattern 3 0 None (''p = new int[10];'' @ t) =
          map TChar (''p = new int[10];'' @ t)"
    using tail
    by (simp add: match_at_def single_malloc_pattern_def seq_def lit_def plus_def ws_def
          word_def ws1_def is_word_def is_space_def Let_def eval_nat_numeral)
  then show ?thesis
    unfolding re_findall_def re_finditer_def by (simp only: matches_of_chars list.map)
qed

lemma free_after_array:
  "free_step (''p = new int[10];'' @ mid @ ''free(p);'') ''p'' =
     ''p = new int[10];'' @
     (if contains mid ''p[''
      then replace mid ''free(p);'' ''delete[] p;'' @ ''delete[] p;''
      else replace mid ''free(p);'' ''delete p;'' @ ''delete p;'')"
  by (simp add: free_step_def replace_def contains_index_free replace_free_tail)

lemma findall_array_on_single:
  assumes "no_malloc t"
  shows "re_findall malloc_pattern 4 (''p = (int *)malloc(sizeof(int));'' @ t) = []"
  unfolding re_findall_def re_finditer_def scan_array_on_single_statement[OF assms]
  by (simp only: matches_of_chars list.map)

lemma findall_single:
  assumes "no_malloc t"
  shows "re_findall single_malloc_pattern 3 (''p = (int *)malloc(sizeof(int));'' @ t) =
           [[''p'', ''int'', ''int'']]"
proof -
  have u: "[1 ..< Suc 3] = [1, 2, 3]"
    by (simp add: upt_rec)
  have "scan single_malloc_pattern 3 0 None (''p = (int *)malloc(sizeof(int));'' @ t) =
     TMatch [Some ''p = (int *)malloc(sizeof(int));'', Some ''p'', Some ''int'', Some ''int'']
       # map TChar t"
    using match_single_statement[of t]
    by (simp add: scan_never[OF single_malloc_pattern_never] assms eval_nat_numeral)
  then show ?thesis
    unfolding re_findall_def re_finditer_def u
    by (simp add: matches_of_chars)
qed

lemma replace_single:
  assumes "no_malloc t"
  shows "replace (''p = (int *)malloc(sizeof(int));'' @ t)
           ''p = (int *)malloc(sizeof(int));'' ''p = new int;'' =
         ''p = new int;'' @ t"
proof -
  have "replace_from 0 ''p = (int *)malloc(sizeof(int));'' ''p = new int;'' t = t"
    using assms by (intro replace_from_none[where l = "''malloc''"] malloc_texts_contain)
      (simp_all add: no_malloc_def)
  then show ?thesis
    by (simp add: replace_def eval_nat_numeral)
qed

lemma free_after_single:
  "free_step (''p = new int;'' @ mid @ ''free(p);'') ''p'' =
     ''p = new int;'' @
     (if contains mid ''p[''
      then replace mid ''free(p);'' ''delete[] p;'' @ ''delete[] p;''
      else replace mid ''free(p);'' ''delete p;'' @ ''delete p;'')"
  by (simp add: free_step_def replace_def contains_index_free replace_free_tail)

text \<open>
  With the one spacing that the replacement looks for, \<^verbatim>\<open>p = (int *)malloc(...)\<close>, at the
  start of a body that has no further \<open>malloc\<close> and ends with \<^verbatim>\<open>free(p);\<close>, both kinds
  of allocation are rewritten. Every \<^verbatim>\<open>free(p);\<close> becomes the array delete when the text
  in between has an indexed use \<^verbatim>\<open>p[\<close>, and the scalar delete otherwise.
\<close>

lemma alloc_pass_exact_spacing:
  assumes "\<not> contains mid ''malloc''"
  shows "alloc_pass [] (''p = (int *)malloc(sizeof(int) * 10);'' @ mid @ ''free(p);'') =
           ([''p''],
            ''p = new int[10];'' @
            (if contains mid ''p[''
             then replace mid ''free(p);'' ''delete[] p;'' @ ''delete[] p;''
             else replace mid ''free(p);'' ''delete p;'' @ ''delete p;'')) \<and>
         alloc_pass [] (''p = (int *)malloc(sizeof(int));'' @ mid @ ''free(p);'') =
           ([''p''],
            ''p = new int;'' @
            (if contains mid ''p[''
             then replace mid ''free(p);'' ''delete[] p;'' @ ''delete[] p;''
             else replace mid ''free(p);'' ''delete p;'' @ ''delete p;''))"
proof -
  from assms have "no_malloc mid" by (simp add: no_malloc_def)
  then have nm: "no_malloc (mid @ ''free(p);'')" by (rule no_malloc_free)
  have a: "alloc_pass [] (''p = (int *)malloc(sizeof(int) * 10);'' @ mid @ ''free(p);'') =
           ([''p''], free_step (''p = new int[10];'' @ mid @ ''free(p);'') ''p'')"
    using findall_array[OF nm] replace_array[OF nm] findall_single_after_array[OF nm]
    by (simp add: alloc_pass_def set_add_def)
  have b: "alloc_pass [] (''p = (int *)malloc(sizeof(int));'' @ mid @ ''free(p);'') =
           ([''p''], free_step (''p = new int;'' @ mid @ ''free(p);'') ''p'')"
    using findall_array_on_single[OF nm] findall_single[OF nm] replace_single[OF nm]
    by (simp add: alloc_pass_def set_add_def)
  show ?thesis
    unfolding a b free_after_array free_after_single by simp
qed

text \<open>
  Claim C3 says that the body \<^verbatim>\<open>p = (int*) malloc(sizeof(int) * 10); ... free(p);\<close> gets
  the array allocation \<^verbatim>\<open>p = new int[10];\<close> and the array delete, and the body
  \<^verbatim>\<open>p = (int*) malloc(sizeof(int)); ... free(p);\<close> the scalar allocation
  \<^verbatim>\<open>p = new int;\<close> and the scalar delete. With the spelling of the claim the source does
  not do so: the pattern finds the allocation and \<open>p\<close> is recorded, but the text that is
  then looked for is written \<^verbatim>\<open>p = (int *)malloc(\<close>, which the body does not contain.
  Both allocations stay as they are, and the array body gets the scalar delete, with
  and without an indexed use of \<open>p\<close>.
\<close>

theorem alloc_pass_keeps_malloc:
  "alloc_pass [] ''p = (int*) malloc(sizeof(int) * 10); p[0] = 1; free(p);'' =
     ([''p''], ''p = (int*) malloc(sizeof(int) * 10); p[0] = 1; delete p;'') \<and>
   alloc_pass [] ''p = (int*) malloc(sizeof(int) * 10); free(p);'' =
     ([''p''], ''p = (int*) malloc(sizeof(int) * 10); delete p;'') \<and>
   alloc_pass [] ''p = (int*) malloc(sizeof(int)); free(p);'' =
     ([''p''], ''p = (int*) malloc(sizeof(int)); delete p;'') \<and>
   re_findall malloc_pattern 4 ''p = (int*) malloc(sizeof(int) * 10); p[0] = 1; free(p);'' =
     [[''p'', ''int'', ''int'', ''10'']] \<and>
   malloc_step ([], ''p = (int*) malloc(sizeof(int) * 10); p[0] = 1; free(p);'')
       [''p'', ''int'', ''int'', ''10''] =
     ([''p''], ''p = (int*) malloc(sizeof(int) * 10); p[0] = 1; free(p);'')"
  by code_simp

end
